theory Spec2Isabelle
  imports Main
begin

section \<open>Data model (src/db/schema.ts)\<close>

text \<open>
  The six relations of the schema. Every table is the list of its rows in insertion
  (rowid) order. Integer columns that hold money or quantities are \<open>int\<close>; the
  autoincremented primary keys are \<open>nat\<close>. The column \<open>user_id\<close> of
  \<open>transaction_history\<close> is declared \<open>text("user_id")\<close>, so it holds a string. The
  timestamp columns \<open>created_at\<close>, \<open>updated_at\<close> and \<open>refund_at\<close> are filled by the storage
  engine or never written, and no handler reads them; they are left out.
\<close>

datatype order_status = OrderPending | OrderCompleted | OrderCancelled

datatype payment_method = Cash | Prepaid

datatype payment_status = Pending | Completed | Failed

datatype transaction_type = Charge | PaymentTx | Refund

record product =
  prod_id :: string
  prod_name :: string
  prod_price :: int

record order =
  order_id :: nat
  order_totalAmount :: int
  order_status :: order_status

record order_detail =
  od_id :: nat
  od_orderId :: nat
  od_productId :: string
  od_name :: string
  od_price :: int
  od_quantity :: int

record payment =
  pay_id :: nat
  pay_orderId :: nat
  pay_userId :: "nat option"
  pay_transactionId :: string
  pay_amount :: int
  pay_method :: payment_method
  pay_status :: payment_status
  pay_paidAt :: "int option"

record user =
  user_id :: nat
  user_uid :: string
  user_balance :: int

record history =
  th_id :: nat
  th_transactionId :: "string option"
  th_userId :: string
  th_amount :: int
  th_transactionType :: transaction_type

record db =
  products :: "product list"
  orders :: "order list"
  orderDetails :: "order_detail list"
  payments :: "payment list"
  users :: "user list"
  transactionHistory :: "history list"

definition empty_db :: db where
  "empty_db = \<lparr>products = [], orders = [], orderDetails = [], payments = [],
               users = [], transactionHistory = []\<rparr>"

text \<open>
  \<open>INTEGER PRIMARY KEY AUTOINCREMENT\<close>: the new rowid is one more than the largest rowid
  the table has ever held. No handler deletes a row, so that is the largest rowid present.
\<close>

definition next_id :: "nat list \<Rightarrow> nat" where
  "next_id ids = Suc (fold max ids 0)"

section \<open>JavaScript numbers and the insert schemas\<close>

text \<open>
  The handlers compute with JavaScript numbers, which are IEEE doubles. Every number a
  handler meets is an integer (the fields of the request and of the catalog are integers,
  the columns are integer columns), so a number is modelled by the integer it holds, or
  one of the two infinities, or NaN. A sum or a product of two such numbers is the
  exact result rounded to the nearest double, ties to the even significand, and an
  infinity when that exceeds the largest double. Below \<open>2 ^ 53\<close> every integer is a
  double, so there the arithmetic is exact.
\<close>

datatype number = Num int | PosInf | NegInf | NaN

function bit_length :: "int \<Rightarrow> nat" where
  "bit_length x = (if x \<le> 0 then 0 else Suc (bit_length (x div 2)))"
  by pat_completeness auto
termination
  by (relation "measure nat") auto

declare bit_length.simps [simp del]

text \<open>
  The double nearest to an integer \<open>x\<close> of at least \<open>2 ^ 53\<close>: keep the 53 leading bits
  \<open>q\<close>, and round on the remainder \<open>r\<close> against half a unit \<open>h\<close> of the last kept bit.
\<close>

definition nearest_double :: "int \<Rightarrow> int" where
  "nearest_double x =
     (let e = bit_length x - 53; q = x div 2 ^ e; r = x mod 2 ^ e; h = 2 ^ (e - 1)
      in (if h < r \<or> (r = h \<and> odd q) then q + 1 else q) * 2 ^ e)"

definition js_number :: "int \<Rightarrow> number" where
  "js_number x =
     (if \<bar>x\<bar> < 2 ^ 53 then Num x
      else let m = nearest_double \<bar>x\<bar>
           in if 2 ^ 1024 \<le> m then (if x < 0 then NegInf else PosInf)
              else Num (if x < 0 then - m else m))"

text \<open>\<open>a * b\<close> of two finite numbers, and \<open>x + y\<close>.\<close>

definition js_mul :: "int \<Rightarrow> int \<Rightarrow> number" where
  "js_mul a b = js_number (a * b)"

fun js_add :: "number \<Rightarrow> number \<Rightarrow> number" where
  "js_add (Num a) (Num b) = js_number (a + b)"
| "js_add NaN y = NaN"
| "js_add x NaN = NaN"
| "js_add PosInf NegInf = NaN"
| "js_add NegInf PosInf = NaN"
| "js_add PosInf y = PosInf"
| "js_add x PosInf = PosInf"
| "js_add NegInf y = NegInf"
| "js_add x NegInf = NegInf"

text \<open>
  The schemas that \<open>createInsertSchema\<close> derives from the tables: an integer column
  accepts the integers from \<open>Number.MIN_SAFE_INTEGER\<close> to \<open>Number.MAX_SAFE_INTEGER\<close>, a
  text column accepts a string and nothing else. \<open>parse\<close> throws on any other value.
\<close>

definition safe_integer :: "int \<Rightarrow> bool" where
  "safe_integer x = (\<bar>x\<bar> \<le> 2 ^ 53 - 1)"

datatype js_value = JsNumber int | JsString string

fun text_column :: "js_value \<Rightarrow> string option" where
  "text_column (JsString s) = Some s"
| "text_column (JsNumber n) = None"

section \<open>Requests and responses\<close>

text \<open>The item of the catalog API (\<open>Item\<close> of item-api-schema, used through its three fields).\<close>

record item =
  jan_code :: string
  item_name :: string
  item_price :: int

record detail =
  productId :: string
  name :: string
  price :: int
  quantity :: int

record order_request =
  details :: "detail list"
  totalAmount :: int
  paymentMethod :: payment_method

record charge_request =
  uid :: string
  amount :: int

text \<open>
  What a handler answers. \<open>Error code msg\<close> is \<open>c.json({ error: msg }, code)\<close>;
  \<open>ValidationError\<close> is the 400 of \<open>zValidator\<close>; \<open>Uncaught\<close> is an exception that leaves
  the handler (a schema \<open>parse\<close> that throws, a storage statement rejected by a
  constraint), which the framework answers with 500. The other constructors are the
  JSON bodies of the successful answers, field by field.
\<close>

datatype response =
    Error nat string
  | ValidationError
  | Uncaught
  | OrderCreated string int payment_method payment_status "string option"
  | ChargeDone string nat string int int
  | PaymentInfo string int payment_method payment_status
  | Profile nat string int
  | PrepaidInfo string int payment_status

section \<open>POST /api/orders/\<close>

text \<open>
  \<open>chunk\<close> of es-toolkit: consecutive slices of the given size, the last one shorter.
  (The library throws on a size that is not a positive integer; the handlers call it
  with 10 only.)
\<close>

function chunk :: "nat \<Rightarrow> 'a list \<Rightarrow> 'a list list" where
  "chunk n xs = (if n = 0 \<or> xs = [] then [] else take n xs # chunk n (drop n xs))"
  by pat_completeness auto
termination
  by (relation "measure (\<lambda>(n, xs). length xs)") auto

declare chunk.simps [simp del]

text \<open>
  One multi-row \<open>INSERT\<close> is one statement: the rows are written in order, and when a row
  violates a constraint the statement fails as a whole (\<open>None\<close>) and none of its rows
  stays. The handler awaits one statement per chunk in a \<open>for\<close> loop; the first failing
  statement throws out of the handler, the earlier chunks stay written. The flag of
  \<open>run_statements\<close> says whether the loop ran to its end.
\<close>

fun insert_rows :: "('v \<Rightarrow> 'r list \<Rightarrow> 'r list option) \<Rightarrow> 'v list \<Rightarrow> 'r list \<Rightarrow> 'r list option" where
  "insert_rows ins [] tbl = Some tbl"
| "insert_rows ins (v # vs) tbl =
     (case ins v tbl of None \<Rightarrow> None | Some tbl' \<Rightarrow> insert_rows ins vs tbl')"

fun run_statements :: "('c \<Rightarrow> 't \<Rightarrow> 't option) \<Rightarrow> 'c list \<Rightarrow> 't \<Rightarrow> bool \<times> 't" where
  "run_statements st [] tbl = (True, tbl)"
| "run_statements st (c # cs) tbl =
     (case st c tbl of None \<Rightarrow> (False, tbl) | Some tbl' \<Rightarrow> run_statements st cs tbl')"

text \<open>
  \<open>INSERT INTO products ... ON CONFLICT (id) DO UPDATE SET name = excluded.name,
  price = excluded.price\<close>, one row of it. The conflict clause covers the primary key
  only, so a name already held by a row with another id violates \<open>UNIQUE(name)\<close>.
\<close>

definition upsert_product :: "product \<Rightarrow> product list \<Rightarrow> product list option" where
  "upsert_product r tbl =
     (if list_ex (\<lambda>q. prod_id q \<noteq> prod_id r \<and> prod_name q = prod_name r) tbl then None
      else if list_ex (\<lambda>q. prod_id q = prod_id r) tbl
      then Some (map (\<lambda>q. if prod_id q = prod_id r
                           then q\<lparr>prod_name := prod_name r, prod_price := prod_price r\<rparr>
                           else q) tbl)
      else Some (tbl @ [r]))"

text \<open>
  The catalog answer is mapped through \<open>productInsertSchema.parse\<close> before the first
  statement runs; an item whose price the schema rejects throws there, with nothing
  written. The flag is \<open>False\<close> for that throw as for a failed statement.
\<close>

definition syncProducts :: "item list \<Rightarrow> product list \<Rightarrow> bool \<times> product list" where
  "syncProducts itemData tbl =
     (if list_all (\<lambda>i. safe_integer (item_price i)) itemData
      then run_statements (insert_rows upsert_product)
             (chunk 10 (map (\<lambda>i. \<lparr>prod_id = jan_code i, prod_name = item_name i,
                                   prod_price = item_price i\<rparr>) itemData))
             tbl
      else (False, tbl))"

text \<open>
  The \<open>reduce\<close> over the requested details, from accumulator \<open>acc\<close>: each detail must find
  a catalog item with its product id and its price; \<open>None\<close> is the thrown
  \<open>UnknownProductError\<close>. The accumulator is a JavaScript number:
  \<open>acc + item.price * detail.quantity\<close> rounds the product and then the sum.
\<close>

fun computeTotal :: "item list \<Rightarrow> detail list \<Rightarrow> number \<Rightarrow> number option" where
  "computeTotal itemData [] acc = Some acc"
| "computeTotal itemData (dt # dts) acc =
     (case find (\<lambda>i. jan_code i = productId dt \<and> item_price i = price dt) itemData of
        None \<Rightarrow> None
      | Some i \<Rightarrow>
          computeTotal itemData dts (js_add acc (js_mul (item_price i) (quantity dt))))"

text \<open>One row of the insert into \<open>order_details\<close>, under \<open>UNIQUE(order_id, product_id)\<close>.\<close>

definition insert_detail :: "nat \<Rightarrow> detail \<Rightarrow> order_detail list \<Rightarrow> order_detail list option" where
  "insert_detail oid dt tbl =
     (if list_ex (\<lambda>r. od_orderId r = oid \<and> od_productId r = productId dt) tbl then None
      else Some (tbl @ [\<lparr>od_id = next_id (map od_id tbl), od_orderId = oid,
                          od_productId = productId dt, od_name = name dt,
                          od_price = price dt, od_quantity = quantity dt\<rparr>]))"

definition initial_status :: "order_request \<Rightarrow> payment_status" where
  "initial_status requestData =
     (if paymentMethod requestData = Cash \<or> totalAmount requestData = 0
      then Completed else Pending)"

definition complete_order :: "nat \<Rightarrow> order list \<Rightarrow> order list" where
  "complete_order oid os =
     map (\<lambda>r. if order_id r = oid then r\<lparr>order_status := OrderCompleted\<rparr> else r) os"

text \<open>
  The handler. \<open>schema\<close> is \<open>createTransactionApiRequestSchema\<close> (its file is not part of
  the sources at hand, so it is a parameter), \<open>baseUrl\<close> is \<open>CONSUMER_SITE_BASE_URL\<close>,
  \<open>fetched\<close> the answer of the catalog API (\<open>None\<close> when \<open>ofetch\<close> throws) and \<open>txnId\<close> the
  value of \<open>crypto.randomUUID()\<close>. The numbers of the request are the doubles the JSON
  parser produced, each holding an integer. \<open>orderInsertSchema.parse\<close> throws on a total
  that is not a safe integer, before the order is inserted; the details are all mapped
  through \<open>orderDetailInsertSchema.parse\<close> after the order is inserted and before the first
  of them is, and it throws on a price or quantity that is not a safe integer. (The
  amount that \<open>paymentInsertSchema.parse\<close> sees is the total again.) The insert into
  \<open>payments\<close> is under \<open>UNIQUE(transaction_id)\<close>. The foreign keys of the inserted rows
  point at rows written just before, so they hold.
\<close>

definition createOrder ::
  "(order_request \<Rightarrow> bool) \<Rightarrow> string \<Rightarrow> item list option \<Rightarrow> string \<Rightarrow> order_request \<Rightarrow> db
     \<Rightarrow> response \<times> db" where
  "createOrder schema baseUrl fetched txnId requestData d =
    (if \<not> schema requestData then (ValidationError, d)
     else
      (case fetched of
         None \<Rightarrow> (Uncaught, d)
       | Some itemData \<Rightarrow>
        (case syncProducts itemData (products d) of
           (False, ps) \<Rightarrow> (Uncaught, d\<lparr>products := ps\<rparr>)
         | (True, ps) \<Rightarrow>
           let d0 = d\<lparr>products := ps\<rparr> in
           (case computeTotal itemData (details requestData) (Num 0) of
              None \<Rightarrow> (Error 400 ''Unknown product'', d0)
            | Some computedTotal \<Rightarrow>
               if computedTotal \<noteq> Num (totalAmount requestData)
               then (Error 400 ''Invalid totalAmount'', d0)
               else if \<not> safe_integer (totalAmount requestData) then (Uncaught, d0)
               else
                let oid = next_id (map order_id (orders d0));
                    d1 = d0\<lparr>orders := orders d0 @
                           [\<lparr>order_id = oid, order_totalAmount = totalAmount requestData,
                             order_status = OrderPending\<rparr>]\<rparr>
                in if \<not> list_all (\<lambda>dt. safe_integer (price dt) \<and> safe_integer (quantity dt))
                           (details requestData)
                   then (Uncaught, d1)
                   else
                   (case run_statements (insert_rows (insert_detail oid))
                           (chunk 10 (details requestData)) (orderDetails d1) of
                      (False, ods) \<Rightarrow> (Uncaught, d1\<lparr>orderDetails := ods\<rparr>)
                    | (True, ods) \<Rightarrow>
                       let d2 = d1\<lparr>orderDetails := ods\<rparr>;
                           st = initial_status requestData
                       in if list_ex (\<lambda>p. pay_transactionId p = txnId) (payments d2)
                          then (Uncaught, d2)
                          else
                           let d3 = d2\<lparr>payments := payments d2 @
                                      [\<lparr>pay_id = next_id (map pay_id (payments d2)),
                                        pay_orderId = oid, pay_userId = None,
                                        pay_transactionId = txnId,
                                        pay_amount = totalAmount requestData,
                                        pay_method = paymentMethod requestData,
                                        pay_status = st, pay_paidAt = None\<rparr>]\<rparr>;
                               d4 = (if st = Completed
                                     then d3\<lparr>orders := complete_order oid (orders d3)\<rparr>
                                     else d3);
                               payUrl = (if st = Pending
                                         then Some (baseUrl @ ''/pay?txnId='' @ txnId)
                                         else None)
                           in (OrderCreated txnId (totalAmount requestData)
                                 (paymentMethod requestData) st payUrl, d4))))))"

section \<open>PUT /api/admin/prepaid/charge/\<close>

text \<open>
  \<open>z.object({ uid: z.string().nonempty(), amount: z.number().int().positive() })\<close>. The
  handler passes \<open>user.id\<close>, a number, as \<open>userId\<close> of the history row.
\<close>

definition adminPrepaidChargeApiRequestSchema :: "charge_request \<Rightarrow> bool" where
  "adminPrepaidChargeApiRequestSchema r = (uid r \<noteq> [] \<and> 0 < amount r)"

text \<open>
  \<open>transactionHistoryInsertSchema.parse({ transactionId, userId, amount,
  transactionType })\<close>: \<open>None\<close> when it throws, otherwise the values to insert (the row
  without its id). \<open>userId\<close> goes to a text column.
\<close>

definition transactionHistoryInsertSchema ::
  "string \<Rightarrow> js_value \<Rightarrow> int \<Rightarrow> transaction_type \<Rightarrow> history option" where
  "transactionHistoryInsertSchema txn userId amt ty =
     (case text_column userId of
        None \<Rightarrow> None
      | Some s \<Rightarrow>
          if safe_integer amt
          then Some \<lparr>th_id = 0, th_transactionId = Some txn, th_userId = s, th_amount = amt,
                     th_transactionType = ty\<rparr>
          else None)"

definition insert_history :: "history \<Rightarrow> history list \<Rightarrow> history list" where
  "insert_history v hs = hs @ [v\<lparr>th_id := next_id (map th_id hs)\<rparr>]"

definition set_balance_by_id :: "nat \<Rightarrow> int \<Rightarrow> user list \<Rightarrow> user list" where
  "set_balance_by_id i b us =
     map (\<lambda>r. if user_id r = i then r\<lparr>user_balance := b\<rparr> else r) us"

definition adminPrepaidCharge :: "string \<Rightarrow> charge_request \<Rightarrow> db \<Rightarrow> response \<times> db" where
  "adminPrepaidCharge transactionId requestData d =
    (if \<not> adminPrepaidChargeApiRequestSchema requestData then (ValidationError, d)
     else
      (case find (\<lambda>r. user_uid r = uid requestData) (users d) of
         None \<Rightarrow> (Error 404 ''User not found'', d)
       | Some usr \<Rightarrow>
          let newBalance = user_balance usr + amount requestData;
              d1 = d\<lparr>users := set_balance_by_id (user_id usr) newBalance (users d)\<rparr>
          in (case transactionHistoryInsertSchema transactionId (JsNumber (int (user_id usr)))
                     (amount requestData) Charge of
                None \<Rightarrow> (Uncaught, d1)
              | Some v \<Rightarrow>
                 (ChargeDone transactionId (user_id usr) (user_uid usr) (amount requestData)
                    newBalance,
                  d1\<lparr>transactionHistory := insert_history v (transactionHistory d1)\<rparr>))))"

section \<open>GET /api/payments/:transactionId/\<close>

text \<open>
  The query is \<open>db.select().from(payments).get({ transactionId })\<close>. It has no \<open>where\<close>
  clause; the argument of \<open>get\<close> is the record of placeholder values of the prepared
  statement, and the statement has no placeholder. So the statement is
  \<open>SELECT ... FROM payments\<close> and \<open>get\<close> yields its first row, or undefined on an empty
  table, which \<open>paymentSelectSchema.parse\<close> rejects by throwing.
\<close>

definition getPayment :: "string \<Rightarrow> db \<Rightarrow> response \<times> db" where
  "getPayment transactionId d =
    (case payments d of
       [] \<Rightarrow> (Uncaught, d)
     | payment # _ \<Rightarrow>
        (PaymentInfo (pay_transactionId payment) (pay_amount payment) (pay_method payment)
           (pay_status payment), d))"

section \<open>GET /api/profile/\<close>

definition getProfile :: "string option \<Rightarrow> db \<Rightarrow> response \<times> db" where
  "getProfile uidopt d =
    (case uidopt of
       None \<Rightarrow> (Error 401 ''Unauthorized'', d)
     | Some u \<Rightarrow>
      (case find (\<lambda>r. user_uid r = u) (users d) of
         Some usr \<Rightarrow> (Profile (user_id usr) (user_uid usr) (user_balance usr), d)
       | None \<Rightarrow>
          let usr = \<lparr>user_id = next_id (map user_id (users d)), user_uid = u, user_balance = 0\<rparr>
          in (Profile (user_id usr) (user_uid usr) (user_balance usr),
              d\<lparr>users := users d @ [usr]\<rparr>)))"

section \<open>GET /api/prepaid/pay/:transactionId/\<close>

definition getPrepaidPay :: "string option \<Rightarrow> string \<Rightarrow> db \<Rightarrow> response \<times> db" where
  "getPrepaidPay uidopt transactionId d =
    (case uidopt of
       None \<Rightarrow> (Error 401 ''Unauthorized'', d)
     | Some u \<Rightarrow>
      (case find (\<lambda>p. pay_transactionId p = transactionId \<and> pay_method p = Prepaid) (payments d) of
         None \<Rightarrow> (Error 404 ''Payment not found'', d)
       | Some payment \<Rightarrow>
          (PrepaidInfo (pay_transactionId payment) (pay_amount payment) (pay_status payment), d)))"

section \<open>POST /api/prepaid/pay/:transactionId/\<close>

text \<open>
  The handler, statement by statement. \<open>now\<close> is the value of \<open>new Date()\<close>, \<open>uidopt\<close> the
  \<open>uid\<close> of the verified identity token (\<open>None\<close> when \<open>c.var.firebaseIdToken\<close> is undefined).
  \<open>.get()\<close> returns the first row of the result, or undefined. The values of the history
  row are parsed after both updates and the second select; \<open>userId\<close> is \<open>user.id\<close>, a
  number.
\<close>

definition set_balance_by_uid :: "string \<Rightarrow> int \<Rightarrow> user list \<Rightarrow> user list" where
  "set_balance_by_uid u b us =
     map (\<lambda>r. if user_uid r = u then r\<lparr>user_balance := b\<rparr> else r) us"

definition complete_payment :: "string \<Rightarrow> int \<Rightarrow> payment list \<Rightarrow> payment list" where
  "complete_payment txn now ps =
     map (\<lambda>p. if pay_transactionId p = txn
               then p\<lparr>pay_status := Completed, pay_paidAt := Some now\<rparr> else p) ps"

definition postPrepaidPay :: "int \<Rightarrow> string option \<Rightarrow> string \<Rightarrow> db \<Rightarrow> response \<times> db" where
  "postPrepaidPay now uidopt transactionId d =
    (case uidopt of
       None \<Rightarrow> (Error 401 ''Unauthorized'', d)
     | Some u \<Rightarrow>
      (case find (\<lambda>p. pay_transactionId p = transactionId \<and> pay_method p = Prepaid) (payments d) of
         None \<Rightarrow> (Error 404 ''Payment not found'', d)
       | Some payment \<Rightarrow>
          if pay_status payment \<noteq> Pending then (Error 400 ''Payment is not pending'', d)
          else
           (case find (\<lambda>r. user_uid r = u) (users d) of
              None \<Rightarrow> (Error 404 ''User not found'', d)
            | Some usr \<Rightarrow>
               let newBalance = user_balance usr - pay_amount payment in
               if newBalance < 0 then (Error 400 ''Insufficient balance'', d)
               else
                let d1 = d\<lparr>users := set_balance_by_uid u newBalance (users d)\<rparr>;
                    d2 = d1\<lparr>payments := complete_payment transactionId now (payments d1)\<rparr>
                in (case find (\<lambda>p. pay_transactionId p = transactionId) (payments d2) of
                      None \<Rightarrow> (Uncaught, d2)
                    | Some updatedPayment \<Rightarrow>
                       (case transactionHistoryInsertSchema transactionId
                               (JsNumber (int (user_id usr))) (pay_amount payment) PaymentTx of
                          None \<Rightarrow> (Uncaught, d2)
                        | Some v \<Rightarrow>
                           (PaymentInfo (pay_transactionId updatedPayment)
                              (pay_amount updatedPayment) (pay_method updatedPayment)
                              (pay_status updatedPayment),
                            d2\<lparr>transactionHistory :=
                                 insert_history v (transactionHistory d2)\<rparr>))))))"


subsection \<open>The same handler, one storage statement at a time\<close>

text \<open>
  Every \<open>await\<close> of the handler is one statement that the storage engine runs atomically;
  between two of them another request may run. A \<open>settle_pc\<close> is the point the handler
  has reached together with the values it holds in its local constants. One
  \<open>settle_step\<close> runs the next statement and the synchronous code up to the following
  \<open>await\<close> or \<open>return\<close>.
\<close>

datatype settle_pc =
    AtSelectPayment
  | AtSelectUser payment
  | AtUpdateUser payment user int
  | AtUpdatePayment payment user
  | AtReselectPayment payment user
  | AtInsertHistory payment history
  | Returned response

fun settle_step :: "int \<Rightarrow> string \<Rightarrow> string \<Rightarrow> settle_pc \<Rightarrow> db \<Rightarrow> settle_pc \<times> db" where
  "settle_step now u txn AtSelectPayment d =
     (case find (\<lambda>p. pay_transactionId p = txn \<and> pay_method p = Prepaid) (payments d) of
        None \<Rightarrow> (Returned (Error 404 ''Payment not found''), d)
      | Some payment \<Rightarrow>
         if pay_status payment \<noteq> Pending then (Returned (Error 400 ''Payment is not pending''), d)
         else (AtSelectUser payment, d))"
| "settle_step now u txn (AtSelectUser payment) d =
     (case find (\<lambda>r. user_uid r = u) (users d) of
        None \<Rightarrow> (Returned (Error 404 ''User not found''), d)
      | Some usr \<Rightarrow>
         let newBalance = user_balance usr - pay_amount payment in
         if newBalance < 0 then (Returned (Error 400 ''Insufficient balance''), d)
         else (AtUpdateUser payment usr newBalance, d))"
| "settle_step now u txn (AtUpdateUser payment usr newBalance) d =
     (AtUpdatePayment payment usr, d\<lparr>users := set_balance_by_uid u newBalance (users d)\<rparr>)"
| "settle_step now u txn (AtUpdatePayment payment usr) d =
     (AtReselectPayment payment usr, d\<lparr>payments := complete_payment txn now (payments d)\<rparr>)"
| "settle_step now u txn (AtReselectPayment payment usr) d =
     (case find (\<lambda>p. pay_transactionId p = txn) (payments d) of
        None \<Rightarrow> (Returned Uncaught, d)
      | Some updatedPayment \<Rightarrow>
         (case transactionHistoryInsertSchema txn (JsNumber (int (user_id usr)))
                 (pay_amount payment) PaymentTx of
            None \<Rightarrow> (Returned Uncaught, d)
          | Some v \<Rightarrow> (AtInsertHistory updatedPayment v, d)))"
| "settle_step now u txn (AtInsertHistory updatedPayment v) d =
     (Returned (PaymentInfo (pay_transactionId updatedPayment) (pay_amount updatedPayment)
                  (pay_method updatedPayment) (pay_status updatedPayment)),
      d\<lparr>transactionHistory := insert_history v (transactionHistory d)\<rparr>)"
| "settle_step now u txn (Returned r) d = (Returned r, d)"

text \<open>Running one handler alone: its statements one after the other.\<close>

fun settle_steps :: "nat \<Rightarrow> int \<Rightarrow> string \<Rightarrow> string \<Rightarrow> settle_pc \<times> db \<Rightarrow> settle_pc \<times> db" where
  "settle_steps 0 now u txn s = s"
| "settle_steps (Suc n) now u txn (pc, d) =
     (case settle_step now u txn pc d of (pc', d') \<Rightarrow> settle_steps n now u txn (pc', d'))"

text \<open>
  Two requests in flight, each with its own identity, transaction id and clock. A
  schedule says whose statement the storage engine runs next.
\<close>

record call =
  call_now :: int
  call_uid :: string
  call_txn :: string

datatype turn = First | Second

fun interleave :: "call \<Rightarrow> call \<Rightarrow> turn list \<Rightarrow> settle_pc \<times> settle_pc \<times> db
    \<Rightarrow> settle_pc \<times> settle_pc \<times> db" where
  "interleave a b [] s = s"
| "interleave a b (First # ts) (pa, pb, d) =
     (case settle_step (call_now a) (call_uid a) (call_txn a) pa d of
        (pa', d') \<Rightarrow> interleave a b ts (pa', pb, d'))"
| "interleave a b (Second # ts) (pa, pb, d) =
     (case settle_step (call_now b) (call_uid b) (call_txn b) pb d of
        (pb', d') \<Rightarrow> interleave a b ts (pa, pb', d'))"

section \<open>The service as a whole\<close>

text \<open>
  A request that has passed the API-key or identity-token middleware, with the values the
  handler takes from outside (catalog answer, fresh transaction id, clock).
\<close>

datatype request =
    PostOrders "item list option" string order_request
  | PutAdminPrepaidCharge string charge_request
  | GetPayments string
  | GetProfile "string option"
  | GetPrepaidPay "string option" string
  | PostPrepaidPay int "string option" string

fun handle :: "(order_request \<Rightarrow> bool) \<Rightarrow> string \<Rightarrow> request \<Rightarrow> db \<Rightarrow> response \<times> db" where
  "handle schema baseUrl (PostOrders fetched txnId body) d =
     createOrder schema baseUrl fetched txnId body d"
| "handle schema baseUrl (PutAdminPrepaidCharge txnId body) d = adminPrepaidCharge txnId body d"
| "handle schema baseUrl (GetPayments txn) d = getPayment txn d"
| "handle schema baseUrl (GetProfile uidopt) d = getProfile uidopt d"
| "handle schema baseUrl (GetPrepaidPay uidopt txn) d = getPrepaidPay uidopt txn d"
| "handle schema baseUrl (PostPrepaidPay now uidopt txn) d = postPrepaidPay now uidopt txn d"

fun run :: "(order_request \<Rightarrow> bool) \<Rightarrow> string \<Rightarrow> request list \<Rightarrow> db \<Rightarrow> db" where
  "run schema baseUrl [] d = d"
| "run schema baseUrl (r # rs) d = run schema baseUrl rs (snd (handle schema baseUrl r d))"

definition balances_nonneg :: "db \<Rightarrow> bool" where
  "balances_nonneg d = list_all (\<lambda>r. 0 \<le> user_balance r) (users d)"

section \<open>Reading the state\<close>

text \<open>
  The part of an \<open>order_details\<close> row that comes from the request, and the state a
  successful order creation leaves: catalog \<open>ps\<close> synchronised, one order, the detail
  rows \<open>rows\<close> and one payment appended.
\<close>

definition row_detail :: "order_detail \<Rightarrow> detail" where
  "row_detail r = \<lparr>productId = od_productId r, name = od_name r, price = od_price r,
                   quantity = od_quantity r\<rparr>"

definition created_db ::
  "string \<Rightarrow> order_request \<Rightarrow> product list \<Rightarrow> order_detail list \<Rightarrow> db \<Rightarrow> db" where
  "created_db txnId body ps rows d =
     \<lparr>products = ps,
      orders = orders d @
        [\<lparr>order_id = next_id (map order_id (orders d)),
          order_totalAmount = totalAmount body,
          order_status = (if initial_status body = Completed then OrderCompleted
                          else OrderPending)\<rparr>],
      orderDetails = orderDetails d @ rows,
      payments = payments d @
        [\<lparr>pay_id = next_id (map pay_id (payments d)),
          pay_orderId = next_id (map order_id (orders d)),
          pay_userId = None, pay_transactionId = txnId,
          pay_amount = totalAmount body, pay_method = paymentMethod body,
          pay_status = initial_status body, pay_paidAt = None\<rparr>],
      users = users d, transactionHistory = transactionHistory d\<rparr>"

section \<open>Concrete states used below\<close>

definition scenario_D :: db where
  "scenario_D = empty_db
     \<lparr>orders := [\<lparr>order_id = 1, order_totalAmount = 500, order_status = OrderPending\<rparr>],
      payments := [\<lparr>pay_id = 1, pay_orderId = 1, pay_userId = None, pay_transactionId = ''t1'',
                    pay_amount = 500, pay_method = Prepaid, pay_status = Pending,
                    pay_paidAt = None\<rparr>],
      users := [\<lparr>user_id = 1, user_uid = ''u1'', user_balance = 300\<rparr>]\<rparr>"

definition catalog_P1 :: "item list" where
  "catalog_P1 = [\<lparr>jan_code = ''P1'', item_name = ''Tea'', item_price = 500\<rparr>]"

definition products_P1 :: "product list" where
  "products_P1 = [\<lparr>prod_id = ''P1'', prod_name = ''Tea'', prod_price = 500\<rparr>]"

definition rows_P1 :: "order_detail list" where
  "rows_P1 = [\<lparr>od_id = 1, od_orderId = 1, od_productId = ''P1'', od_name = ''Tea'',
                    od_price = 500, od_quantity = 2\<rparr>]"

definition order_P1 :: "int \<Rightarrow> int \<Rightarrow> int \<Rightarrow> payment_method \<Rightarrow> order_request" where
  "order_P1 pr q tot m =
     \<lparr>details = [\<lparr>productId = ''P1'', name = ''Tea'', price = pr, quantity = q\<rparr>],
      totalAmount = tot, paymentMethod = m\<rparr>"

definition any_body :: "order_request \<Rightarrow> bool" where
  "any_body body = True"

text \<open>The state a settlement leaves when it has run both of its updates.\<close>

definition settled_db :: "int \<Rightarrow> string \<Rightarrow> string \<Rightarrow> payment \<Rightarrow> user \<Rightarrow> db \<Rightarrow> db" where
  "settled_db now u txn p usr d =
     d\<lparr>users := set_balance_by_uid u (user_balance usr - pay_amount p) (users d),
       payments := complete_payment txn now (payments d)\<rparr>"

text \<open>
  The sum of the details from \<open>acc\<close> stays among the safe integers: every product and
  every running sum is one. There the doubles of the handler hold the exact values.
\<close>

fun exact_range :: "detail list \<Rightarrow> int \<Rightarrow> bool" where
  "exact_range [] acc = True"
| "exact_range (dt # dts) acc =
     (safe_integer (price dt * quantity dt) \<and> safe_integer (acc + price dt * quantity dt)
      \<and> exact_range dts (acc + price dt * quantity dt))"

text \<open>
  Rewriting the \<open>user_id\<close> column of every payment row, to compare a run with the run on
  a state whose payments are attributed to other users.
\<close>

definition relabel_owner :: "(nat \<Rightarrow> nat option) \<Rightarrow> payment list \<Rightarrow> payment list" where
  "relabel_owner g ps = map (\<lambda>q. q\<lparr>pay_userId := g (pay_id q)\<rparr>) ps"

text \<open>The uniqueness constraints on \<open>payments.transaction_id\<close> and \<open>users.uid\<close>.\<close>

definition txn_unique :: "db \<Rightarrow> bool" where
  "txn_unique d = distinct (map pay_transactionId (payments d))"

definition uid_unique :: "db \<Rightarrow> bool" where
  "uid_unique d = distinct (map user_uid (users d))"

text \<open>No payment row carries a user.\<close>

definition no_owner :: "db \<Rightarrow> bool" where
  "no_owner d = list_all (\<lambda>p. pay_userId p = None) (payments d)"

definition funded_setup :: "request list" where
  "funded_setup =
     [PostOrders (Some catalog_P1) ''t1'' (order_P1 500 1 500 Prepaid),
      GetProfile (Some ''u1''),
      PutAdminPrepaidCharge ''c1'' \<lparr>uid = ''u1'', amount = 1000\<rparr>]"

definition funded_db :: db where
  "funded_db =
     \<lparr>products = products_P1,
      orders = [\<lparr>order_id = 1, order_totalAmount = 500, order_status = OrderPending\<rparr>],
      orderDetails = [\<lparr>od_id = 1, od_orderId = 1, od_productId = ''P1'', od_name = ''Tea'',
                        od_price = 500, od_quantity = 1\<rparr>],
      payments = [\<lparr>pay_id = 1, pay_orderId = 1, pay_userId = None, pay_transactionId = ''t1'',
                    pay_amount = 500, pay_method = Prepaid, pay_status = Pending,
                    pay_paidAt = None\<rparr>],
      users = [\<lparr>user_id = 1, user_uid = ''u1'', user_balance = 1000\<rparr>],
      transactionHistory = []\<rparr>"

definition two_users_setup :: "request list" where
  "two_users_setup =
     [PostOrders (Some catalog_P1) ''t1'' (order_P1 500 1 500 Prepaid),
      GetProfile (Some ''u2''),
      GetProfile (Some ''u1''),
      PutAdminPrepaidCharge ''c1'' \<lparr>uid = ''u1'', amount = 1000\<rparr>]"

definition two_users_db :: db where
  "two_users_db =
     \<lparr>products = products_P1,
      orders = [\<lparr>order_id = 1, order_totalAmount = 500, order_status = OrderPending\<rparr>],
      orderDetails = [\<lparr>od_id = 1, od_orderId = 1, od_productId = ''P1'', od_name = ''Tea'',
                        od_price = 500, od_quantity = 1\<rparr>],
      payments = [\<lparr>pay_id = 1, pay_orderId = 1, pay_userId = None, pay_transactionId = ''t1'',
                    pay_amount = 500, pay_method = Prepaid, pay_status = Pending,
                    pay_paidAt = None\<rparr>],
      users = [\<lparr>user_id = 1, user_uid = ''u2'', user_balance = 0\<rparr>,
               \<lparr>user_id = 2, user_uid = ''u1'', user_balance = 1000\<rparr>],
      transactionHistory = []\<rparr>"

text \<open>A catalog and an order whose exact sum is \<open>2 ^ 53 + 1\<close>, declared as \<open>2 ^ 53\<close>.\<close>

definition catalog_big :: "item list" where
  "catalog_big = [\<lparr>jan_code = ''P1'', item_name = ''Tea'', item_price = 9007199254740991\<rparr>,
                  \<lparr>jan_code = ''P2'', item_name = ''Milk'', item_price = 2\<rparr>]"

definition products_big :: "product list" where
  "products_big = [\<lparr>prod_id = ''P1'', prod_name = ''Tea'', prod_price = 9007199254740991\<rparr>,
                   \<lparr>prod_id = ''P2'', prod_name = ''Milk'', prod_price = 2\<rparr>]"

definition order_big :: order_request where
  "order_big =
     \<lparr>details = [\<lparr>productId = ''P1'', name = ''Tea'', price = 9007199254740991, quantity = 1\<rparr>,
                 \<lparr>productId = ''P2'', name = ''Milk'', price = 2, quantity = 1\<rparr>],
      totalAmount = 9007199254740992, paymentMethod = Cash\<rparr>"

definition prepaid_history :: "request list" where
  "prepaid_history =
     [PostOrders (Some catalog_P1) ''t1'' (order_P1 500 2 1000 Prepaid),
      GetProfile (Some ''u1''),
      PutAdminPrepaidCharge ''c1'' \<lparr>uid = ''u1'', amount = 1000\<rparr>,
      PostPrepaidPay 7 (Some ''u1'') ''t1'']"

definition race_setup :: "request list" where
  "race_setup =
     [PostOrders (Some catalog_P1) ''t1'' (order_P1 500 1 500 Prepaid),
      PostOrders (Some catalog_P1) ''t2'' (order_P1 500 1 500 Prepaid),
      GetProfile (Some ''u1''),
      PutAdminPrepaidCharge ''c1'' \<lparr>uid = ''u1'', amount = 500\<rparr>]"

definition race_db :: "int \<Rightarrow> db" where
  "race_db B =
     \<lparr>products = [\<lparr>prod_id = ''P1'', prod_name = ''Tea'', prod_price = B\<rparr>],
      orders = [\<lparr>order_id = 1, order_totalAmount = B, order_status = OrderPending\<rparr>,
                \<lparr>order_id = 2, order_totalAmount = B, order_status = OrderPending\<rparr>],
      orderDetails = [\<lparr>od_id = 1, od_orderId = 1, od_productId = ''P1'', od_name = ''Tea'',
                        od_price = B, od_quantity = 1\<rparr>,
                      \<lparr>od_id = 2, od_orderId = 2, od_productId = ''P1'', od_name = ''Tea'',
                        od_price = B, od_quantity = 1\<rparr>],
      payments = [\<lparr>pay_id = 1, pay_orderId = 1, pay_userId = None, pay_transactionId = ''t1'',
                    pay_amount = B, pay_method = Prepaid, pay_status = Pending,
                    pay_paidAt = None\<rparr>,
                   \<lparr>pay_id = 2, pay_orderId = 2, pay_userId = None, pay_transactionId = ''t2'',
                    pay_amount = B, pay_method = Prepaid, pay_status = Pending,
                    pay_paidAt = None\<rparr>],
      users = [\<lparr>user_id = 1, user_uid = ''u1'', user_balance = B\<rparr>],
      transactionHistory = []\<rparr>"

definition race_schedule :: "turn list" where
  "race_schedule = [First, First, Second, Second,
                    First, First, First, First, Second, Second, Second, Second]"

definition serial_schedule :: "turn list" where
  "serial_schedule = [First, First, First, First, First, First,
                      Second, Second, Second, Second, Second, Second]"

text \<open>Prices and quantities that are not negative.\<close>

definition nonneg_details :: "detail list \<Rightarrow> bool" where
  "nonneg_details dts = list_all (\<lambda>dt. 0 \<le> price dt \<and> 0 \<le> quantity dt) dts"

text \<open>A number of at least \<open>2 ^ 53\<close>, or the positive infinity.\<close>

fun big :: "number \<Rightarrow> bool" where
  "big (Num x) = (2 ^ 53 \<le> x)"
| "big PosInf = True"
| "big NegInf = False"
| "big NaN = False"

text \<open>
  A catalog and an order with a negative quantity, in which the rounding of the two
  products cancels.
\<close>

definition catalog_neg :: "item list" where
  "catalog_neg = [\<lparr>jan_code = ''P1'', item_name = ''Tea'', item_price = 9007199254740991\<rparr>,
                  \<lparr>jan_code = ''P2'', item_name = ''Milk'', item_price = 9007199254740989\<rparr>]"

definition order_neg :: order_request where
  "order_neg =
     \<lparr>details = [\<lparr>productId = ''P1'', name = ''Tea'', price = 9007199254740991, quantity = 3\<rparr>,
                 \<lparr>productId = ''P2'', name = ''Milk'', price = 9007199254740989, quantity = - 3\<rparr>],
      totalAmount = 4, paymentMethod = Cash\<rparr>"

section \<open>Auxiliary facts\<close>

subsection \<open>Fresh identifiers, lookups, chunks\<close>

lemma fold_max_ge: "(x::nat) \<in> set xs \<Longrightarrow> x \<le> fold max xs a"
proof (induction xs arbitrary: a)
  case Nil then show ?case by simp
next
  case (Cons y ys)
  have mono: "\<And>b. b \<le> fold max ys b"
  proof -
    fix b show "b \<le> fold max ys b"
    proof (induction ys arbitrary: b)
      case Nil show ?case by simp
    next
      case (Cons z zs)
      have "b \<le> max z b" by simp
      also have "\<dots> \<le> fold max zs (max z b)" by (rule Cons.IH)
      finally show ?case by simp
    qed
  qed
  show ?case
  proof (cases "x = y")
    case True
    have "y \<le> max y a" by simp
    also have "\<dots> \<le> fold max ys (max y a)" by (rule mono)
    finally show ?thesis using True by simp
  next
    case False
    with Cons.prems have "x \<in> set ys" by simp
    then show ?thesis using Cons.IH by simp
  qed
qed

lemma next_id_fresh: "next_id ids \<notin> set ids"
proof
  assume "next_id ids \<in> set ids"
  then have "next_id ids \<le> fold max ids 0" by (rule fold_max_ge)
  then show False by (simp add: next_id_def)
qed

lemma find_map_update:
  assumes "\<And>x. P (f x) = P x"
  shows "find P (map f xs) = map_option f (find P xs)"
  by (induction xs) (simp_all add: assms)

lemma find_weaken:
  assumes "find P xs = Some x" and "Q x" 
  shows "find (\<lambda>y. P y \<and> Q y) xs = Some x"
  using assms by (induction xs) (auto split: if_splits)

lemma chunk_Nil: "chunk n [] = []"
  by (simp add: chunk.simps)

lemma chunk_short: "0 < n \<Longrightarrow> xs \<noteq> [] \<Longrightarrow> length xs \<le> n \<Longrightarrow> chunk n xs = [xs]"
  by (subst chunk.simps) (simp add: chunk_Nil)

lemma concat_chunk: "0 < n \<Longrightarrow> concat (chunk n xs) = xs"
proof (induction n xs rule: chunk.induct)
  case (1 n xs)
  show ?case
  proof (cases "xs = []")
    case True then show ?thesis by (simp add: chunk.simps)
  next
    case False
    with 1 have "concat (chunk n (drop n xs)) = drop n xs" by simp
    with False 1(2) show ?thesis by (subst chunk.simps) simp
  qed
qed

subsection \<open>Rounding\<close>

text \<open>
  A double of at least \<open>2 ^ 53\<close> stays at least \<open>2 ^ 53\<close> when something that is not
  negative is added, so a sum of products that are not negative and that ends below
  \<open>2 ^ 53\<close> was never rounded.
\<close>

lemma bit_length_bounds:
  "0 < x \<Longrightarrow> 2 ^ (bit_length x - 1) \<le> x \<and> x < 2 ^ bit_length x"
proof (induction x rule: bit_length.induct)
  case (1 x)
  from "1.prems" have bl: "bit_length x = Suc (bit_length (x div 2))"
    by (subst bit_length.simps) simp
  show ?case
  proof (cases "x div 2 = 0")
    case True
    with "1.prems" have "x = 1" by auto
    then show ?thesis by (simp add: bit_length.simps)
  next
    case False
    with "1.prems" have pos: "0 < x div 2" by auto
    from "1.IH" "1.prems" pos
    have ih: "2 ^ (bit_length (x div 2) - 1) \<le> x div 2" "x div 2 < 2 ^ bit_length (x div 2)"
      by auto
    from pos have "0 < bit_length (x div 2)"
      by (subst bit_length.simps) simp
    then have e: "2 ^ bit_length (x div 2) = (2::int) * 2 ^ (bit_length (x div 2) - 1)"
      by (cases "bit_length (x div 2)") simp_all
    have "2 * (x div 2) \<le> x" by simp
    moreover have "x \<le> 2 * (x div 2) + 1" by presburger
    ultimately show ?thesis using ih e by (simp add: bl)
  qed
qed

lemma nearest_double_ge:
  assumes "2 ^ 53 \<le> x"
  shows "2 ^ 53 \<le> nearest_double x"
proof -
  from assms have pos: "0 < x" by (smt (verit) zero_less_power)
  from bit_length_bounds[OF pos] have lo: "2 ^ (bit_length x - 1) \<le> x" and hi: "x < 2 ^ bit_length x"
    by simp_all
  from assms hi have h: "(2::int) ^ 53 < 2 ^ bit_length x" by (rule le_less_trans)
  have bl: "53 < bit_length x" by (rule power_less_imp_less_exp[OF _ h]) simp
  define e where "e = bit_length x - 53"
  define q where "q = x div 2 ^ e"
  from bl have e1: "1 \<le> e" and ble: "bit_length x - 1 = 52 + e" by (simp_all add: e_def)
  have "(2::int) ^ 52 * 2 ^ e \<le> x" using lo ble by (simp add: power_add)
  then have q52: "2 ^ 52 \<le> q"
    unfolding q_def by (metis zero_less_numeral zero_less_power pos_imp_zdiv_pos_iff
        zdiv_mono1 nonzero_mult_div_cancel_right power_not_zero zero_neq_numeral)
  have "(2::int) ^ 53 = 2 ^ 52 * 2 ^ 1" by simp
  also have "\<dots> \<le> 2 ^ 52 * 2 ^ e" using e1 by (intro mult_left_mono power_increasing) simp_all
  also have "\<dots> \<le> q * 2 ^ e" using q52 by (intro mult_right_mono) simp_all
  finally have base: "2 ^ 53 \<le> q * 2 ^ e" .
  have "q * 2 ^ e \<le> (q + 1) * 2 ^ e" by (intro mult_right_mono) simp_all
  with base have top: "2 ^ 53 \<le> (q + 1) * 2 ^ e" by (rule order_trans)
  define c where "c \<longleftrightarrow> 2 ^ (e - 1) < x mod 2 ^ e \<or> (x mod 2 ^ e = 2 ^ (e - 1) \<and> odd q)"
  have "nearest_double x = (if c then q + 1 else q) * 2 ^ e"
    by (simp add: nearest_double_def Let_def e_def q_def c_def)
  then show ?thesis using base top by (cases c) simp_all
qed

lemma js_number_big: "2 ^ 53 \<le> x \<Longrightarrow> big (js_number x)"
  using nearest_double_ge[of x] by (auto simp: js_number_def Let_def)

lemma js_number_small: "0 \<le> x \<Longrightarrow> x < 2 ^ 53 \<Longrightarrow> js_number x = Num x"
  by (simp add: js_number_def)

lemma js_number_nonneg_cases:
  assumes "0 \<le> x"
  shows "(x < 2 ^ 53 \<and> js_number x = Num x) \<or> (2 ^ 53 \<le> x \<and> big (js_number x))"
  using assms js_number_big[of x] js_number_small[of x] by (cases "x < 2 ^ 53") auto

lemma js_add_big:
  assumes "big a" and "big b \<or> (\<exists>y. b = Num y \<and> 0 \<le> y)"
  shows "big (js_add a b)"
proof (cases a)
  case (Num x)
  with assms(1) have x: "2 ^ 53 \<le> x" by simp
  show ?thesis
  proof (cases b)
    case (Num y)
    with assms(2) have "0 \<le> y" by (auto intro: order_trans[of 0 "2 ^ 53"])
    with x have "2 ^ 53 \<le> x + y" by simp
    with \<open>a = Num x\<close> Num show ?thesis by (simp add: js_number_big)
  qed (use assms \<open>a = Num x\<close> in auto)
next
  case PosInf
  with assms show ?thesis by (cases b) auto
qed (use assms in auto)

subsection \<open>Order creation, branch by branch\<close>

lemma js_number_safe: "safe_integer x \<Longrightarrow> js_number x = Num x"
  by (simp add: js_number_def safe_integer_def)

lemma computeTotal_None:
  "computeTotal itemData dts acc = None \<longleftrightarrow>
     \<not> list_all (\<lambda>dt. find (\<lambda>i. jan_code i = productId dt \<and> item_price i = price dt) itemData
                         \<noteq> None) dts"
  by (induction dts arbitrary: acc) (auto split: option.splits)

lemma computeTotal_exact:
  assumes "list_all (\<lambda>dt. find (\<lambda>i. jan_code i = productId dt \<and> item_price i = price dt) itemData
                         \<noteq> None) dts"
    and "exact_range dts acc"
  shows "computeTotal itemData dts (Num acc)
           = Some (Num (acc + sum_list (map (\<lambda>dt. price dt * quantity dt) dts)))"
  using assms
proof (induction dts arbitrary: acc)
  case Nil then show ?case by simp
next
  case (Cons dt dts)
  from Cons.prems(1) obtain i where
    i: "find (\<lambda>i. jan_code i = productId dt \<and> item_price i = price dt) itemData = Some i"
    by auto
  then have pr: "item_price i = price dt" by (auto simp: find_Some_iff)
  from Cons.prems(2) have s1: "safe_integer (price dt * quantity dt)"
    and s2: "safe_integer (acc + price dt * quantity dt)"
    and rest: "exact_range dts (acc + price dt * quantity dt)"
    by simp_all
  have step: "js_add (Num acc) (js_mul (item_price i) (quantity dt))
                = Num (acc + price dt * quantity dt)"
    using s1 s2 pr by (simp add: js_mul_def js_number_safe)
  from Cons.prems(1) have "list_all (\<lambda>dt. find (\<lambda>i. jan_code i = productId dt \<and> item_price i = price dt)
                         itemData \<noteq> None) dts"
    by simp
  from Cons.IH[OF this rest] i step show ?case by (simp add: add.assoc)
qed

lemma computeTotal_big:
  assumes "nonneg_details dts" and "big acc" and "computeTotal itemData dts acc = Some r"
  shows "big r"
  using assms
proof (induction dts arbitrary: acc)
  case Nil then show ?case by simp
next
  case (Cons dt dts)
  from Cons.prems(3) obtain i where
    i: "find (\<lambda>i. jan_code i = productId dt \<and> item_price i = price dt) itemData = Some i"
    and rest: "computeTotal itemData dts (js_add acc (js_mul (item_price i) (quantity dt))) = Some r"
    by (auto split: option.splits)
  from i have pr: "item_price i = price dt" by (auto simp: find_Some_iff)
  from Cons.prems(1) have nn: "0 \<le> price dt * quantity dt" and nrest: "nonneg_details dts"
    by (simp_all add: nonneg_details_def)
  from js_number_nonneg_cases[OF nn]
  have "big (js_mul (item_price i) (quantity dt))
        \<or> (\<exists>y. js_mul (item_price i) (quantity dt) = Num y \<and> 0 \<le> y)"
    using nn pr by (auto simp: js_mul_def)
  with Cons.prems(2) have "big (js_add acc (js_mul (item_price i) (quantity dt)))"
    by (rule js_add_big)
  from Cons.IH[OF nrest this rest] show ?case .
qed

lemma computeTotal_nonneg:
  assumes "nonneg_details dts" and "0 \<le> s" and "s < 2 ^ 53"
    and "computeTotal itemData dts (Num s) = Some (Num t)" and "t < 2 ^ 53"
  shows "t = s + sum_list (map (\<lambda>dt. price dt * quantity dt) dts) \<and> exact_range dts s"
  using assms
proof (induction dts arbitrary: s)
  case Nil then show ?case by simp
next
  case (Cons dt dts)
  let ?p = "price dt * quantity dt"
  from Cons.prems(4) obtain i where
    i: "find (\<lambda>i. jan_code i = productId dt \<and> item_price i = price dt) itemData = Some i"
    and rest: "computeTotal itemData dts (js_add (Num s) (js_mul (item_price i) (quantity dt)))
                 = Some (Num t)"
    by (auto split: option.splits)
  from i have pr: "item_price i = price dt" by (auto simp: find_Some_iff)
  from Cons.prems(1) have nn: "0 \<le> ?p" and nrest: "nonneg_details dts"
    by (simp_all add: nonneg_details_def)
  have notbig: "\<not> big (Num t)" using Cons.prems(5) by simp
  have small_p: "?p < 2 ^ 53"
  proof (rule ccontr)
    assume "\<not> ?p < 2 ^ 53"
    then have "big (js_number ?p)" by (simp add: js_number_big)
    then have "big (js_add (js_number ?p) (Num s))"
      using Cons.prems(2) by (intro js_add_big) auto
    moreover have "js_add (Num s) (js_number ?p) = js_add (js_number ?p) (Num s)"
      by (cases "js_number ?p") (simp_all add: add.commute)
    ultimately have "big (js_add (Num s) (js_mul (item_price i) (quantity dt)))"
      by (simp add: js_mul_def pr)
    from computeTotal_big[OF nrest this rest] notbig show False by simp
  qed
  then have mul: "js_mul (item_price i) (quantity dt) = Num ?p"
    using nn by (simp add: js_mul_def pr js_number_small)
  have small_sum: "s + ?p < 2 ^ 53"
  proof (rule ccontr)
    assume "\<not> s + ?p < 2 ^ 53"
    then have "big (js_number (s + ?p))" by (simp add: js_number_big)
    then have "big (js_add (Num s) (js_mul (item_price i) (quantity dt)))"
      by (simp add: mul)
    from computeTotal_big[OF nrest this rest] notbig show False by simp
  qed
  have nn_sum: "0 \<le> s + ?p" using nn Cons.prems(2) by simp
  then have add: "js_add (Num s) (js_mul (item_price i) (quantity dt)) = Num (s + ?p)"
    using small_sum by (simp add: mul js_number_small)
  from Cons.IH[OF nrest nn_sum small_sum rest[unfolded add] Cons.prems(5)]
  have ih: "t = s + ?p + sum_list (map (\<lambda>dt. price dt * quantity dt) dts)"
    "exact_range dts (s + ?p)" by simp_all
  have "safe_integer ?p" using nn small_p by (simp add: safe_integer_def)
  moreover have "safe_integer (s + ?p)" using nn_sum small_sum by (simp add: safe_integer_def)
  ultimately show ?case using ih by simp
qed

lemma computeTotal_nonneg_total:
  assumes "nonneg_details dts"
    and "computeTotal itemData dts (Num 0) = Some (Num t)" and "safe_integer t"
  shows "t = sum_list (map (\<lambda>dt. price dt * quantity dt) dts)"
proof -
  from assms(3) have "t < 2 ^ 53" by (simp add: safe_integer_def)
  from computeTotal_nonneg[OF assms(1) _ _ assms(2) this] show ?thesis by simp
qed

lemma insert_detail_Some:
  assumes "insert_detail oid dt tbl = Some tbl'"
  shows "\<exists>r. tbl' = tbl @ [r] \<and> od_orderId r = oid \<and> row_detail r = dt"
  using assms by (auto simp: insert_detail_def row_detail_def split: if_splits)

lemma insert_rows_detail:
  assumes "insert_rows (insert_detail oid) dts tbl = Some tbl'"
  shows "\<exists>rows. tbl' = tbl @ rows \<and> list_all (\<lambda>r. od_orderId r = oid) rows
            \<and> map row_detail rows = dts"
  using assms
proof (induction dts arbitrary: tbl)
  case Nil then show ?case by simp
next
  case (Cons dt dts)
  from Cons.prems obtain t1 where a: "insert_detail oid dt tbl = Some t1"
    and b: "insert_rows (insert_detail oid) dts t1 = Some tbl'"
    by (auto split: option.splits)
  from insert_detail_Some[OF a] obtain r where r: "t1 = tbl @ [r]" "od_orderId r = oid" "row_detail r = dt"
    by blast
  from Cons.IH[OF b] obtain rows where rows: "tbl' = t1 @ rows" "list_all (\<lambda>r. od_orderId r = oid) rows"
    "map row_detail rows = dts" by blast
  have "tbl' = tbl @ (r # rows) \<and> list_all (\<lambda>r. od_orderId r = oid) (r # rows)
          \<and> map row_detail (r # rows) = dt # dts"
    using r rows by simp
  then show ?case by (rule exI)
qed

lemma run_statements_detail:
  assumes "run_statements (insert_rows (insert_detail oid)) cs tbl = (True, tbl')"
  shows "\<exists>rows. tbl' = tbl @ rows \<and> list_all (\<lambda>r. od_orderId r = oid) rows
            \<and> map row_detail rows = concat cs"
  using assms
proof (induction cs arbitrary: tbl)
  case Nil then show ?case by simp
next
  case (Cons c cs)
  from Cons.prems obtain t1 where a: "insert_rows (insert_detail oid) c tbl = Some t1"
    and b: "run_statements (insert_rows (insert_detail oid)) cs t1 = (True, tbl')"
    by (auto split: option.splits)
  from insert_rows_detail[OF a] obtain r1 where r1: "t1 = tbl @ r1" "list_all (\<lambda>r. od_orderId r = oid) r1"
    "map row_detail r1 = c" by blast
  from Cons.IH[OF b] obtain r2 where r2: "tbl' = t1 @ r2" "list_all (\<lambda>r. od_orderId r = oid) r2"
    "map row_detail r2 = concat cs" by blast
  have "tbl' = tbl @ (r1 @ r2) \<and> list_all (\<lambda>r. od_orderId r = oid) (r1 @ r2)
          \<and> map row_detail (r1 @ r2) = concat (c # cs)"
    using r1 r2 by simp
  then show ?case by (rule exI)
qed

lemma createOrder_invalid: "\<not> schema body \<Longrightarrow> createOrder schema baseUrl fetched txnId body d = (ValidationError, d)"
  by (simp add: createOrder_def)

lemma createOrder_nofetch: "schema body \<Longrightarrow> createOrder schema baseUrl None txnId body d = (Uncaught, d)"
  by (simp add: createOrder_def)

lemma createOrder_syncfail:
  "schema body \<Longrightarrow> syncProducts itemData (products d) = (False, ps) \<Longrightarrow>
   createOrder schema baseUrl (Some itemData) txnId body d = (Uncaught, d\<lparr>products := ps\<rparr>)"
  by (simp add: createOrder_def)

lemma createOrder_unknown:
  "schema body \<Longrightarrow> syncProducts itemData (products d) = (True, ps) \<Longrightarrow>
   computeTotal itemData (details body) (Num 0) = None \<Longrightarrow>
   createOrder schema baseUrl (Some itemData) txnId body d = (Error 400 ''Unknown product'', d\<lparr>products := ps\<rparr>)"
  by (simp add: createOrder_def)

lemma createOrder_mismatch:
  "schema body \<Longrightarrow> syncProducts itemData (products d) = (True, ps) \<Longrightarrow>
   computeTotal itemData (details body) (Num 0) = Some c \<Longrightarrow> c \<noteq> Num (totalAmount body) \<Longrightarrow>
   createOrder schema baseUrl (Some itemData) txnId body d = (Error 400 ''Invalid totalAmount'', d\<lparr>products := ps\<rparr>)"
  by (simp add: createOrder_def)

lemma createOrder_unsafe_total:
  "schema body \<Longrightarrow> syncProducts itemData (products d) = (True, ps) \<Longrightarrow>
   computeTotal itemData (details body) (Num 0) = Some (Num (totalAmount body)) \<Longrightarrow>
   \<not> safe_integer (totalAmount body) \<Longrightarrow>
   createOrder schema baseUrl (Some itemData) txnId body d = (Uncaught, d\<lparr>products := ps\<rparr>)"
  by (simp add: createOrder_def)

lemma createOrder_unsafe_detail:
  "schema body \<Longrightarrow> syncProducts itemData (products d) = (True, ps) \<Longrightarrow>
   computeTotal itemData (details body) (Num 0) = Some (Num (totalAmount body)) \<Longrightarrow>
   safe_integer (totalAmount body) \<Longrightarrow>
   \<not> list_all (\<lambda>dt. safe_integer (price dt) \<and> safe_integer (quantity dt)) (details body) \<Longrightarrow>
   createOrder schema baseUrl (Some itemData) txnId body d =
     (Uncaught, d\<lparr>products := ps,
                  orders := orders d @ [\<lparr>order_id = next_id (map order_id (orders d)),
                                   order_totalAmount = totalAmount body,
                                   order_status = OrderPending\<rparr>]\<rparr>)"
  by (simp add: createOrder_def)

lemma createOrder_detailfail:
  "schema body \<Longrightarrow> syncProducts itemData (products d) = (True, ps) \<Longrightarrow>
   computeTotal itemData (details body) (Num 0) = Some (Num (totalAmount body)) \<Longrightarrow>
   safe_integer (totalAmount body) \<Longrightarrow>
   list_all (\<lambda>dt. safe_integer (price dt) \<and> safe_integer (quantity dt)) (details body) \<Longrightarrow>
   run_statements (insert_rows (insert_detail (next_id (map order_id (orders d)))))
       (chunk 10 (details body)) (orderDetails d) = (False, ods) \<Longrightarrow>
   createOrder schema baseUrl (Some itemData) txnId body d =
     (Uncaught, d\<lparr>products := ps,
                  orders := orders d @ [\<lparr>order_id = next_id (map order_id (orders d)),
                                   order_totalAmount = totalAmount body,
                                   order_status = OrderPending\<rparr>],
                  orderDetails := ods\<rparr>)"
  by (simp add: createOrder_def)

lemma createOrder_dup:
  "schema body \<Longrightarrow> syncProducts itemData (products d) = (True, ps) \<Longrightarrow>
   computeTotal itemData (details body) (Num 0) = Some (Num (totalAmount body)) \<Longrightarrow>
   safe_integer (totalAmount body) \<Longrightarrow>
   list_all (\<lambda>dt. safe_integer (price dt) \<and> safe_integer (quantity dt)) (details body) \<Longrightarrow>
   run_statements (insert_rows (insert_detail (next_id (map order_id (orders d)))))
       (chunk 10 (details body)) (orderDetails d) = (True, ods) \<Longrightarrow>
   list_ex (\<lambda>p. pay_transactionId p = txnId) (payments d) \<Longrightarrow>
   createOrder schema baseUrl (Some itemData) txnId body d =
     (Uncaught, d\<lparr>products := ps,
                  orders := orders d @ [\<lparr>order_id = next_id (map order_id (orders d)),
                                   order_totalAmount = totalAmount body,
                                   order_status = OrderPending\<rparr>],
                  orderDetails := ods\<rparr>)"
  by (simp add: createOrder_def)

lemma complete_order_fresh: "complete_order (next_id (map order_id os)) os = os"
proof -
  have "\<And>r. r \<in> set os \<Longrightarrow> order_id r \<noteq> next_id (map order_id os)"
    using next_id_fresh[of "map order_id os"] by force
  then show ?thesis unfolding complete_order_def by (simp add: map_idI)
qed

lemma createOrder_ok:
  assumes "schema body" and "syncProducts itemData (products d) = (True, ps)"
    and "computeTotal itemData (details body) (Num 0) = Some (Num (totalAmount body))"
    and "safe_integer (totalAmount body)"
    and "list_all (\<lambda>dt. safe_integer (price dt) \<and> safe_integer (quantity dt)) (details body)"
    and "run_statements (insert_rows (insert_detail (next_id (map order_id (orders d)))))
           (chunk 10 (details body)) (orderDetails d) = (True, orderDetails d @ rows)"
    and "\<not> list_ex (\<lambda>p. pay_transactionId p = txnId) (payments d)"
  shows "createOrder schema baseUrl (Some itemData) txnId body d =
     (OrderCreated txnId (totalAmount body) (paymentMethod body) (initial_status body)
        (if initial_status body = Pending then Some (baseUrl @ ''/pay?txnId='' @ txnId) else None),
      created_db txnId body ps rows d)"
proof (cases "initial_status body = Completed")
  case True
  with assms show ?thesis
    by (simp add: createOrder_def Let_def created_db_def complete_order_def
                  complete_order_fresh[unfolded complete_order_def])
next
  case False
  with assms show ?thesis
    by (simp add: createOrder_def Let_def created_db_def)
qed

lemma createOrder_success:
  assumes ok: "createOrder schema baseUrl fetched txnId body d = (OrderCreated t a m st url, d')"
  obtains itemData ps rows where
      "schema body" and "fetched = Some itemData"
    and "syncProducts itemData (products d) = (True, ps)"
    and "computeTotal itemData (details body) (Num 0) = Some (Num (totalAmount body))"
    and "safe_integer (totalAmount body)"
    and "\<not> list_ex (\<lambda>p. pay_transactionId p = txnId) (payments d)"
    and "list_all (\<lambda>r. od_orderId r = next_id (map order_id (orders d))) rows"
    and "map row_detail rows = details body"
    and "t = txnId" and "a = totalAmount body" and "m = paymentMethod body"
    and "st = initial_status body"
    and "url = (if st = Pending then Some (baseUrl @ ''/pay?txnId='' @ txnId) else None)"
    and "d' = created_db txnId body ps rows d"
proof -
  let ?oid = "next_id (map order_id (orders d))"
  have sch: "schema body"
    using ok createOrder_invalid[of schema body baseUrl fetched txnId d] by auto
  obtain itemData where f: "fetched = Some itemData"
    using ok sch createOrder_nofetch[of schema body baseUrl txnId d] by (cases fetched) auto
  obtain b ps where sy0: "syncProducts itemData (products d) = (b, ps)"
    by (cases "syncProducts itemData (products d)")
  have b using ok sch f sy0 createOrder_syncfail[of schema body itemData d ps baseUrl txnId]
    by (cases b) auto
  with sy0 have sy: "syncProducts itemData (products d) = (True, ps)" by simp
  have ct: "computeTotal itemData (details body) (Num 0) = Some (Num (totalAmount body))"
  proof (cases "computeTotal itemData (details body) (Num 0)")
    case None
    from createOrder_unknown[where schema = schema and body = body, OF sch sy None, of baseUrl txnId]
      ok f show ?thesis by simp
  next
    case (Some c)
    show ?thesis
    proof (cases "c = Num (totalAmount body)")
      case True with Some show ?thesis by simp
    next
      case False
      from createOrder_mismatch[where schema = schema and body = body, OF sch sy Some False,
             of baseUrl txnId] ok f show ?thesis by simp
    qed
  qed
  have st: "safe_integer (totalAmount body)"
  proof (rule ccontr)
    assume "\<not> safe_integer (totalAmount body)"
    from createOrder_unsafe_total[where schema = schema and body = body, OF sch sy ct this,
           of baseUrl txnId] ok f show False by simp
  qed
  have sd: "list_all (\<lambda>dt. safe_integer (price dt) \<and> safe_integer (quantity dt)) (details body)"
  proof (rule ccontr)
    assume "\<not> list_all (\<lambda>dt. safe_integer (price dt) \<and> safe_integer (quantity dt)) (details body)"
    from createOrder_unsafe_detail[where schema = schema and body = body, OF sch sy ct st this,
           of baseUrl txnId] ok f show False by simp
  qed
  obtain b2 ods where rs0: "run_statements (insert_rows (insert_detail ?oid))
       (chunk 10 (details body)) (orderDetails d) = (b2, ods)"
    by (cases "run_statements (insert_rows (insert_detail ?oid)) (chunk 10 (details body)) (orderDetails d)")
  have b2
  proof (cases b2)
    case False
    with rs0 createOrder_detailfail[where schema = schema and body = body, OF sch sy ct st sd, of ods baseUrl txnId] ok f show ?thesis by simp
  qed simp
  with rs0 have rs: "run_statements (insert_rows (insert_detail ?oid))
       (chunk 10 (details body)) (orderDetails d) = (True, ods)" by simp
  from run_statements_detail[OF rs] obtain rows where rows: "ods = orderDetails d @ rows"
    "list_all (\<lambda>r. od_orderId r = ?oid) rows" "map row_detail rows = details body"
    by (auto simp: concat_chunk)
  have nx: "\<not> list_ex (\<lambda>p. pay_transactionId p = txnId) (payments d)"
  proof
    assume "list_ex (\<lambda>p. pay_transactionId p = txnId) (payments d)"
    from createOrder_dup[where schema = schema and body = body, OF sch sy ct st sd rs this, of baseUrl] ok f show False by simp
  qed
  from createOrder_ok[where schema = schema and body = body, OF sch sy ct st sd rs[unfolded rows(1)] nx, of baseUrl] ok f
  have "t = txnId \<and> a = totalAmount body \<and> m = paymentMethod body \<and> st = initial_status body
    \<and> url = (if st = Pending then Some (baseUrl @ ''/pay?txnId='' @ txnId) else None)
    \<and> d' = created_db txnId body ps rows d"
    by auto
  with sch f sy ct st nx rows(2,3) show ?thesis by (intro that) simp_all
qed

lemma sync_P1: "syncProducts catalog_P1 (products empty_db)
   = (True, [\<lparr>prod_id = ''P1'', prod_name = ''Tea'', prod_price = 500\<rparr>])"
  by (simp add: syncProducts_def catalog_P1_def chunk_short upsert_product_def empty_db_def
        safe_integer_def)

lemma scenario_A:
  "createOrder any_body ''https://shop.example'' (Some catalog_P1) ''t1'' (order_P1 500 2 1000 Cash) empty_db
   = (OrderCreated ''t1'' 1000 Cash Completed None,
      created_db ''t1'' (order_P1 500 2 1000 Cash) products_P1
        rows_P1 empty_db)"
  by (simp add: createOrder_def any_body_def catalog_P1_def order_P1_def empty_db_def created_db_def products_P1_def rows_P1_def
        syncProducts_def chunk_short upsert_product_def insert_detail_def next_id_def
        initial_status_def complete_order_def safe_integer_def js_mul_def js_number_def)

lemma scenario_B:
  "createOrder any_body ''https://shop.example'' (Some catalog_P1) ''t1'' (order_P1 500 2 1000 Prepaid) empty_db
   = (OrderCreated ''t1'' 1000 Prepaid Pending (Some ''https://shop.example/pay?txnId=t1''),
      created_db ''t1'' (order_P1 500 2 1000 Prepaid) products_P1
        rows_P1 empty_db)"
  by (simp add: createOrder_def any_body_def catalog_P1_def order_P1_def empty_db_def created_db_def products_P1_def rows_P1_def
        syncProducts_def chunk_short upsert_product_def insert_detail_def next_id_def
        initial_status_def complete_order_def safe_integer_def js_mul_def js_number_def)

lemma sync_big: "syncProducts catalog_big (products empty_db) = (True, products_big)"
  by (simp add: syncProducts_def catalog_big_def products_big_def chunk_short upsert_product_def
        empty_db_def safe_integer_def)

lemma total_big:
  "computeTotal catalog_big (details order_big) (Num 0) = Some (Num 9007199254740992)"
  by (simp add: catalog_big_def order_big_def js_mul_def js_number_def nearest_double_def
        bit_length.simps Let_def)

lemma total_neg:
  "computeTotal catalog_neg (details order_neg) (Num 0) = Some (Num 4)"
  by (simp add: catalog_neg_def order_neg_def js_mul_def js_number_def nearest_double_def
        bit_length.simps Let_def)

lemma negative_quantity_rounding:
  "sum_list (map (\<lambda>dt. price dt * quantity dt) (details order_neg)) = 6
   \<and> computeTotal catalog_neg (details order_neg) (Num 0) = Some (Num (totalAmount order_neg))
   \<and> safe_integer (totalAmount order_neg)
   \<and> list_all (\<lambda>dt. safe_integer (price dt) \<and> safe_integer (quantity dt)) (details order_neg)"
  using total_neg by (simp add: order_neg_def safe_integer_def)

subsection \<open>Settlement\<close>

lemma find_Some_holds: "find P xs = Some x \<Longrightarrow> P x"
  by (induction xs) (auto split: if_splits)

lemma find_Some_mem: "find P xs = Some x \<Longrightarrow> x \<in> set xs"
  by (induction xs) (auto split: if_splits)

lemma find_None_notin: "find P xs = None \<Longrightarrow> x \<in> set xs \<Longrightarrow> \<not> P x"
  by (induction xs) (auto split: if_splits)

lemma distinct_find:
  assumes "distinct (map f xs)" and "x \<in> set xs"
  shows "find (\<lambda>y. f y = f x) xs = Some x"
  using assms by (induction xs) (auto simp: image_iff)

lemma find_complete_payment:
  "find (\<lambda>q. pay_transactionId q = txn) (complete_payment txn now ps)
     = map_option (\<lambda>q. q\<lparr>pay_status := Completed, pay_paidAt := Some now\<rparr>)
         (find (\<lambda>q. pay_transactionId q = txn) ps)"
  by (induction ps) (simp_all add: complete_payment_def)

lemma find_prepaid_complete_payment:
  "find (\<lambda>q. pay_transactionId q = txn \<and> pay_method q = Prepaid) (complete_payment txn now ps)
     = map_option (\<lambda>q. q\<lparr>pay_status := Completed, pay_paidAt := Some now\<rparr>)
         (find (\<lambda>q. pay_transactionId q = txn \<and> pay_method q = Prepaid) ps)"
  by (induction ps) (simp_all add: complete_payment_def)

lemma find_set_balance_by_uid:
  "find (\<lambda>r. user_uid r = u) (set_balance_by_uid u b us)
     = map_option (\<lambda>r. r\<lparr>user_balance := b\<rparr>) (find (\<lambda>r. user_uid r = u) us)"
  by (induction us) (simp_all add: set_balance_by_uid_def)

text \<open>The history values never parse: the user id handed over is a number.\<close>

lemma history_parse_number [simp]:
  "transactionHistoryInsertSchema txn (JsNumber n) amt ty = None"
  by (simp add: transactionHistoryInsertSchema_def)

text \<open>
  A settlement that passes its checks debits the user and completes the payment, and
  then throws at the parse of the history values.
\<close>

lemma postPrepaidPay_settled:
  assumes p: "find (\<lambda>q. pay_transactionId q = txn) (payments d) = Some p"
    and m: "pay_method p = Prepaid" and s: "pay_status p = Pending"
    and usr: "find (\<lambda>r. user_uid r = u) (users d) = Some usr"
    and b: "pay_amount p \<le> user_balance usr"
  shows "postPrepaidPay now (Some u) txn d = (Uncaught, settled_db now u txn p usr d)"
proof -
  from p have t: "pay_transactionId p = txn" by (rule find_Some_holds)
  from p m have p2: "find (\<lambda>q. pay_transactionId q = txn \<and> pay_method q = Prepaid) (payments d) = Some p"
    by (rule find_weaken)
  show ?thesis using p p2 m s usr b t
    by (simp add: postPrepaidPay_def Let_def find_complete_payment settled_db_def)
qed

lemma postPrepaidPay_not_pending:
  assumes "find (\<lambda>q. pay_transactionId q = txn \<and> pay_method q = Prepaid) (payments d) = Some p"
    and "pay_status p \<noteq> Pending"
  shows "postPrepaidPay now (Some u) txn d = (Error 400 ''Payment is not pending'', d)"
  using assms by (simp add: postPrepaidPay_def)

lemma settle_debits_any_user:
  assumes p: "find (\<lambda>q. pay_transactionId q = txn) (payments d) = Some p"
    and m: "pay_method p = Prepaid" and s: "pay_status p = Pending"
    and usr: "find (\<lambda>r. user_uid r = u) (users d) = Some usr"
    and b: "pay_amount p \<le> user_balance usr"
  shows "fst (postPrepaidPay now (Some u) txn d) = Uncaught"
    and "find (\<lambda>r. user_uid r = u) (users (snd (postPrepaidPay now (Some u) txn d)))
           = Some (usr\<lparr>user_balance := user_balance usr - pay_amount p\<rparr>)"
    and "find (\<lambda>q. pay_transactionId q = txn) (payments (snd (postPrepaidPay now (Some u) txn d)))
           = Some (p\<lparr>pay_status := Completed, pay_paidAt := Some now\<rparr>)"
    and "map pay_userId (payments (snd (postPrepaidPay now (Some u) txn d)))
           = map pay_userId (payments d)"
    and "transactionHistory (snd (postPrepaidPay now (Some u) txn d)) = transactionHistory d"
proof -
  have first: "postPrepaidPay now (Some u) txn d = (Uncaught, settled_db now u txn p usr d)"
    using assms by (rule postPrepaidPay_settled)
  show "fst (postPrepaidPay now (Some u) txn d) = Uncaught" by (simp add: first)
  show "find (\<lambda>r. user_uid r = u) (users (snd (postPrepaidPay now (Some u) txn d)))
           = Some (usr\<lparr>user_balance := user_balance usr - pay_amount p\<rparr>)"
    using usr by (simp add: first settled_db_def find_set_balance_by_uid)
  show "find (\<lambda>q. pay_transactionId q = txn) (payments (snd (postPrepaidPay now (Some u) txn d)))
           = Some (p\<lparr>pay_status := Completed, pay_paidAt := Some now\<rparr>)"
    using p by (simp add: first settled_db_def find_complete_payment)
  show "map pay_userId (payments (snd (postPrepaidPay now (Some u) txn d)))
           = map pay_userId (payments d)"
    by (simp add: first settled_db_def complete_payment_def)
  show "transactionHistory (snd (postPrepaidPay now (Some u) txn d)) = transactionHistory d"
    by (simp add: first settled_db_def)
qed

lemma second_settlement_rejected:
  assumes p: "find (\<lambda>q. pay_transactionId q = txn) (payments d) = Some p"
    and m: "pay_method p = Prepaid" and s: "pay_status p = Pending"
    and usr: "find (\<lambda>r. user_uid r = u) (users d) = Some usr"
    and b: "pay_amount p \<le> user_balance usr"
  shows "postPrepaidPay now' (Some u') txn (snd (postPrepaidPay now (Some u) txn d))
           = (Error 400 ''Payment is not pending'', snd (postPrepaidPay now (Some u) txn d))"
proof -
  let ?d1 = "settled_db now u txn p usr d"
  have first: "postPrepaidPay now (Some u) txn d = (Uncaught, ?d1)"
    using assms by (rule postPrepaidPay_settled)
  from p m have "find (\<lambda>q. pay_transactionId q = txn \<and> pay_method q = Prepaid) (payments d) = Some p"
    by (rule find_weaken)
  then have "find (\<lambda>q. pay_transactionId q = txn \<and> pay_method q = Prepaid) (payments ?d1)
               = Some (p\<lparr>pay_status := Completed, pay_paidAt := Some now\<rparr>)"
    by (simp add: settled_db_def find_prepaid_complete_payment)
  then have "postPrepaidPay now' (Some u') txn ?d1 = (Error 400 ''Payment is not pending'', ?d1)"
    by (rule postPrepaidPay_not_pending) simp
  with first show ?thesis by simp
qed

lemma postPrepaidPay_orders: "orders (snd (postPrepaidPay now uidopt txn d)) = orders d"
  by (simp add: postPrepaidPay_def Let_def split: option.split)

lemma find_relabel_owner:
  assumes "\<And>q h. P (q\<lparr>pay_userId := h\<rparr>) = P q"
  shows "find P (relabel_owner g ps) = map_option (\<lambda>q. q\<lparr>pay_userId := g (pay_id q)\<rparr>) (find P ps)"
  unfolding relabel_owner_def by (rule find_map_update) (rule assms)

lemma complete_relabel:
  "complete_payment txn now (relabel_owner g ps) = relabel_owner g (complete_payment txn now ps)"
  by (simp add: complete_payment_def relabel_owner_def)

lemma postPrepaidPay_relabel:
  "postPrepaidPay now uidopt txn (d\<lparr>payments := relabel_owner g (payments d)\<rparr>)
     = (fst (postPrepaidPay now uidopt txn d),
        (snd (postPrepaidPay now uidopt txn d))
          \<lparr>payments := relabel_owner g (payments (snd (postPrepaidPay now uidopt txn d)))\<rparr>)"
proof (cases uidopt)
  case None then show ?thesis by (simp add: postPrepaidPay_def)
next
  case (Some u)
  have f1: "find (\<lambda>p. pay_transactionId p = txn \<and> pay_method p = Prepaid) (relabel_owner g (payments d))
      = map_option (\<lambda>q. q\<lparr>pay_userId := g (pay_id q)\<rparr>)
          (find (\<lambda>p. pay_transactionId p = txn \<and> pay_method p = Prepaid) (payments d))"
    by (rule find_relabel_owner) simp
  have f2: "\<And>ps. find (\<lambda>p. pay_transactionId p = txn) (relabel_owner g ps)
      = map_option (\<lambda>q. q\<lparr>pay_userId := g (pay_id q)\<rparr>) (find (\<lambda>p. pay_transactionId p = txn) ps)"
    by (rule find_relabel_owner) simp
  show ?thesis
  proof (cases "find (\<lambda>p. pay_transactionId p = txn \<and> pay_method p = Prepaid) (payments d)")
    case None
    with Some f1 show ?thesis by (simp add: postPrepaidPay_def)
  next
    case p: (Some p)
    show ?thesis
    proof (cases "pay_status p = Pending")
      case False
      with Some f1 p show ?thesis by (simp add: postPrepaidPay_def)
    next
      case True
      show ?thesis
      proof (cases "find (\<lambda>r. user_uid r = u) (users d)")
        case None
        with Some f1 p True show ?thesis by (simp add: postPrepaidPay_def)
      next
        case usr: (Some usr)
        show ?thesis
        proof (cases "user_balance usr - pay_amount p < 0")
          case True
          with Some f1 p \<open>pay_status p = Pending\<close> usr show ?thesis
            by (simp add: postPrepaidPay_def)
        next
          case False
          show ?thesis
          proof (cases "find (\<lambda>p. pay_transactionId p = txn) (complete_payment txn now (payments d))")
            case None
            with Some f1 p \<open>pay_status p = Pending\<close> usr False show ?thesis
              by (simp add: postPrepaidPay_def Let_def complete_relabel f2)
          next
            case up: (Some up)
            with Some f1 p \<open>pay_status p = Pending\<close> usr False show ?thesis
              by (simp add: postPrepaidPay_def Let_def complete_relabel f2)
          qed
        qed
      qed
    qed
  qed
qed

lemma settle_steps_sequential:
  "settle_steps 6 now u txn (AtSelectPayment, d)
     = (Returned (fst (postPrepaidPay now (Some u) txn d)), snd (postPrepaidPay now (Some u) txn d))"
  by (simp add: numeral_nat postPrepaidPay_def Let_def split: option.split)

lemma race_db_reached:
  "run any_body ''https://shop.example'' race_setup empty_db = race_db 500"
  by (simp add: race_setup_def race_db_def createOrder_def any_body_def catalog_P1_def
        order_P1_def empty_db_def syncProducts_def chunk_short upsert_product_def
        insert_detail_def next_id_def initial_status_def getProfile_def adminPrepaidCharge_def
        adminPrepaidChargeApiRequestSchema_def set_balance_by_id_def Let_def
        safe_integer_def js_mul_def js_number_def)

lemma funded_db_reached:
  "run any_body ''https://shop.example'' funded_setup empty_db = funded_db"
  by (simp add: funded_setup_def funded_db_def products_P1_def createOrder_def any_body_def
        catalog_P1_def order_P1_def empty_db_def syncProducts_def chunk_short
        upsert_product_def insert_detail_def next_id_def initial_status_def getProfile_def
        adminPrepaidCharge_def adminPrepaidChargeApiRequestSchema_def set_balance_by_id_def
        Let_def safe_integer_def js_mul_def js_number_def)

lemma two_users_db_reached:
  "run any_body ''https://shop.example'' two_users_setup empty_db = two_users_db"
  by (simp add: two_users_setup_def two_users_db_def products_P1_def createOrder_def
        any_body_def catalog_P1_def order_P1_def empty_db_def syncProducts_def chunk_short
        upsert_product_def insert_detail_def next_id_def initial_status_def getProfile_def
        adminPrepaidCharge_def adminPrepaidChargeApiRequestSchema_def set_balance_by_id_def
        Let_def safe_integer_def js_mul_def js_number_def)

lemma race_both_debit:
  "interleave \<lparr>call_now = 7, call_uid = ''u1'', call_txn = ''t1''\<rparr>
              \<lparr>call_now = 8, call_uid = ''u1'', call_txn = ''t2''\<rparr>
              race_schedule (AtSelectPayment, AtSelectPayment, race_db B)
   = (Returned Uncaught, Returned Uncaught,
      (race_db B)
        \<lparr>payments := complete_payment ''t2'' 8 (complete_payment ''t1'' 7 (payments (race_db B))),
         users := [\<lparr>user_id = 1, user_uid = ''u1'', user_balance = 0\<rparr>]\<rparr>)"
  by (simp add: race_schedule_def race_db_def Let_def set_balance_by_uid_def
        complete_payment_def)

lemma serial_debits_one_succeeds:
  "0 < B \<Longrightarrow>
   interleave \<lparr>call_now = 7, call_uid = ''u1'', call_txn = ''t1''\<rparr>
              \<lparr>call_now = 8, call_uid = ''u1'', call_txn = ''t2''\<rparr>
              serial_schedule (AtSelectPayment, AtSelectPayment, race_db B)
   = (Returned Uncaught, Returned (Error 400 ''Insufficient balance''),
      (race_db B)
        \<lparr>payments := complete_payment ''t1'' 7 (payments (race_db B)),
         users := [\<lparr>user_id = 1, user_uid = ''u1'', user_balance = 0\<rparr>]\<rparr>)"
  by (simp add: serial_schedule_def race_db_def Let_def set_balance_by_uid_def
        complete_payment_def)

subsection \<open>Invariants of the handlers\<close>

lemma createOrder_users: "users (snd (createOrder schema baseUrl fetched txnId body d)) = users d"
  by (simp add: createOrder_def Let_def split: option.split prod.split bool.split)

lemma set_balance_by_uid_nonneg:
  "0 \<le> b \<Longrightarrow> list_all (\<lambda>r. 0 \<le> user_balance r) us
     \<Longrightarrow> list_all (\<lambda>r. 0 \<le> user_balance r) (set_balance_by_uid u b us)"
  by (induction us) (simp_all add: set_balance_by_uid_def)

lemma set_balance_by_id_nonneg:
  "0 \<le> b \<Longrightarrow> list_all (\<lambda>r. 0 \<le> user_balance r) us
     \<Longrightarrow> list_all (\<lambda>r. 0 \<le> user_balance r) (set_balance_by_id i b us)"
  by (induction us) (simp_all add: set_balance_by_id_def)

lemma adminPrepaidCharge_balances:
  assumes "balances_nonneg d"
  shows "balances_nonneg (snd (adminPrepaidCharge txnId body d))"
proof (cases "adminPrepaidChargeApiRequestSchema body")
  case False then show ?thesis using assms by (simp add: adminPrepaidCharge_def)
next
  case True
  show ?thesis
  proof (cases "find (\<lambda>r. user_uid r = uid body) (users d)")
    case None with True assms show ?thesis by (simp add: adminPrepaidCharge_def)
  next
    case (Some usr)
    then have "usr \<in> set (users d)" by (rule find_Some_mem)
    with assms have "0 \<le> user_balance usr" by (simp add: balances_nonneg_def list_all_iff)
    moreover from True have "0 < amount body" by (simp add: adminPrepaidChargeApiRequestSchema_def)
    ultimately have "0 \<le> user_balance usr + amount body" by simp
    with True Some assms show ?thesis
      by (simp add: adminPrepaidCharge_def Let_def balances_nonneg_def set_balance_by_id_nonneg)
  qed
qed

lemma getProfile_balances:
  assumes "balances_nonneg d"
  shows "balances_nonneg (snd (getProfile uidopt d))"
  using assms
  by (simp add: getProfile_def Let_def balances_nonneg_def split: option.split)

lemma postPrepaidPay_balances:
  assumes "balances_nonneg d"
  shows "balances_nonneg (snd (postPrepaidPay now uidopt txn d))"
  using assms
  by (simp add: postPrepaidPay_def Let_def balances_nonneg_def set_balance_by_uid_nonneg
           split: option.split)

lemma handle_balances:
  assumes "balances_nonneg d"
  shows "balances_nonneg (snd (handle schema baseUrl r d))"
proof (cases r)
  case (PostOrders fetched txnId body)
  with assms show ?thesis by (simp add: balances_nonneg_def createOrder_users)
next
  case (PutAdminPrepaidCharge txnId body)
  with assms show ?thesis by (simp add: adminPrepaidCharge_balances)
next
  case (GetPayments txn)
  with assms show ?thesis by (simp add: getPayment_def split: list.split)
next
  case (GetProfile uidopt)
  with assms show ?thesis by (simp add: getProfile_balances)
next
  case (GetPrepaidPay uidopt txn)
  with assms show ?thesis by (simp add: getPrepaidPay_def split: option.split)
next
  case (PostPrepaidPay now uidopt txn)
  with assms show ?thesis by (simp add: postPrepaidPay_balances)
qed

lemma run_balances:
  "balances_nonneg d \<Longrightarrow> balances_nonneg (run schema baseUrl rs d)"
  by (induction rs arbitrary: d) (simp_all add: handle_balances)

lemma createOrder_payments:
  "payments (snd (createOrder schema baseUrl fetched txnId body d)) = payments d
   \<or> (\<not> list_ex (\<lambda>p. pay_transactionId p = txnId) (payments d)
      \<and> (\<exists>p. payments (snd (createOrder schema baseUrl fetched txnId body d)) = payments d @ [p]
             \<and> pay_transactionId p = txnId \<and> pay_userId p = None))"
  by (simp add: createOrder_def Let_def split: option.split prod.split bool.split)

lemma createOrder_txn_unique:
  assumes "txn_unique d"
  shows "txn_unique (snd (createOrder schema baseUrl fetched txnId body d))"
proof -
  from createOrder_payments[of schema baseUrl fetched txnId body d]
  consider "payments (snd (createOrder schema baseUrl fetched txnId body d)) = payments d"
    | p where "\<not> list_ex (\<lambda>p. pay_transactionId p = txnId) (payments d)"
        "payments (snd (createOrder schema baseUrl fetched txnId body d)) = payments d @ [p]"
        "pay_transactionId p = txnId"
    by blast
  then show ?thesis
  proof cases
    case 1
    with assms show ?thesis by (simp add: txn_unique_def)
  next
    case 2
    from 2(1) have "txnId \<notin> pay_transactionId ` set (payments d)"
      by (auto simp: list_ex_iff)
    with 2(2,3) assms show ?thesis by (simp add: txn_unique_def)
  qed
qed

lemma postPrepaidPay_txn_unique:
  assumes "txn_unique d"
  shows "txn_unique (snd (postPrepaidPay now uidopt txn d))"
proof -
  have "map pay_transactionId (payments (snd (postPrepaidPay now uidopt txn d)))
          = map pay_transactionId (payments d)"
    by (simp add: postPrepaidPay_def Let_def complete_payment_def split: option.split)
  with assms show ?thesis by (simp add: txn_unique_def)
qed

lemma handle_txn_unique:
  assumes "txn_unique d"
  shows "txn_unique (snd (handle schema baseUrl r d))"
proof (cases r)
  case (PostOrders fetched txnId body)
  with assms show ?thesis by (simp add: createOrder_txn_unique)
next
  case (PutAdminPrepaidCharge txnId body)
  with assms show ?thesis
    by (simp add: adminPrepaidCharge_def Let_def txn_unique_def split: option.split)
next
  case (GetPayments txn)
  with assms show ?thesis by (simp add: getPayment_def split: list.split)
next
  case (GetProfile uidopt)
  with assms show ?thesis by (simp add: getProfile_def Let_def txn_unique_def split: option.split)
next
  case (GetPrepaidPay uidopt txn)
  with assms show ?thesis by (simp add: getPrepaidPay_def split: option.split)
next
  case (PostPrepaidPay now uidopt txn)
  with assms show ?thesis by (simp add: postPrepaidPay_txn_unique)
qed

lemma handle_uid_unique:
  assumes "uid_unique d"
  shows "uid_unique (snd (handle schema baseUrl r d))"
proof (cases r)
  case (PostOrders fetched txnId body)
  with assms show ?thesis by (simp add: uid_unique_def createOrder_users)
next
  case (PutAdminPrepaidCharge txnId body)
  have "\<And>i b us. map user_uid (set_balance_by_id i b us) = map user_uid us"
    by (simp add: set_balance_by_id_def)
  with PutAdminPrepaidCharge assms show ?thesis
    by (simp add: adminPrepaidCharge_def Let_def uid_unique_def split: option.split)
next
  case (GetPayments txn)
  with assms show ?thesis by (simp add: getPayment_def split: list.split)
next
  case (GetProfile uidopt)
  show ?thesis
  proof (cases uidopt)
    case None with GetProfile assms show ?thesis by (simp add: getProfile_def)
  next
    case (Some u)
    show ?thesis
    proof (cases "find (\<lambda>r. user_uid r = u) (users d)")
      case found: (Some usr)
      with GetProfile Some assms show ?thesis by (simp add: getProfile_def)
    next
      case None
      then have "u \<notin> user_uid ` set (users d)" by (auto dest: find_None_notin)
      with GetProfile Some None assms show ?thesis
        by (simp add: getProfile_def Let_def uid_unique_def)
    qed
  qed
next
  case (GetPrepaidPay uidopt txn)
  with assms show ?thesis by (simp add: getPrepaidPay_def split: option.split)
next
  case (PostPrepaidPay now uidopt txn)
  have "map user_uid (users (snd (postPrepaidPay now uidopt txn d))) = map user_uid (users d)"
    by (simp add: postPrepaidPay_def Let_def set_balance_by_uid_def split: option.split)
  with PostPrepaidPay assms show ?thesis by (simp add: uid_unique_def)
qed

lemma run_unique:
  "txn_unique d \<Longrightarrow> uid_unique d \<Longrightarrow>
   txn_unique (run schema baseUrl rs d) \<and> uid_unique (run schema baseUrl rs d)"
  by (induction rs arbitrary: d) (simp_all add: handle_txn_unique handle_uid_unique)

lemma unique_payment_found:
  assumes "txn_unique d" and "p \<in> set (payments d)"
  shows "find (\<lambda>q. pay_transactionId q = pay_transactionId p) (payments d) = Some p"
  using assms unfolding txn_unique_def by (rule distinct_find)

lemma unique_user_found:
  assumes "uid_unique d" and "usr \<in> set (users d)"
  shows "find (\<lambda>r. user_uid r = user_uid usr) (users d) = Some usr"
  using assms unfolding uid_unique_def by (rule distinct_find)

lemma reachable_unique:
  "txn_unique (run schema baseUrl rs empty_db) \<and> uid_unique (run schema baseUrl rs empty_db)"
  by (rule run_unique) (simp_all add: txn_unique_def uid_unique_def empty_db_def)

lemma handle_no_owner:
  assumes "no_owner d"
  shows "no_owner (snd (handle schema baseUrl r d))"
proof (cases r)
  case (PostOrders fetched txnId body)
  from createOrder_payments[of schema baseUrl fetched txnId body d]
  consider "payments (snd (createOrder schema baseUrl fetched txnId body d)) = payments d"
    | p where "payments (snd (createOrder schema baseUrl fetched txnId body d)) = payments d @ [p]"
        "pay_userId p = None"
    by blast
  then show ?thesis
  proof cases
    case 1 with PostOrders assms show ?thesis by (simp add: no_owner_def)
  next
    case 2 with PostOrders assms show ?thesis by (simp add: no_owner_def)
  qed
next
  case (PutAdminPrepaidCharge txnId body)
  with assms show ?thesis
    by (simp add: adminPrepaidCharge_def Let_def no_owner_def split: option.split)
next
  case (GetPayments txn)
  with assms show ?thesis by (simp add: getPayment_def split: list.split)
next
  case (GetProfile uidopt)
  with assms show ?thesis by (simp add: getProfile_def Let_def no_owner_def split: option.split)
next
  case (GetPrepaidPay uidopt txn)
  with assms show ?thesis by (simp add: getPrepaidPay_def split: option.split)
next
  case (PostPrepaidPay now uidopt txn)
  have "map pay_userId (payments (snd (postPrepaidPay now uidopt txn d)))
          = map pay_userId (payments d)"
    by (simp add: postPrepaidPay_def Let_def complete_payment_def split: option.split)
  then have "list_all (\<lambda>x. x = None) (map pay_userId (payments (snd (postPrepaidPay now uidopt txn d))))
          = list_all (\<lambda>x. x = None) (map pay_userId (payments d))"
    by simp
  with PostPrepaidPay assms show ?thesis
    by (simp add: no_owner_def list_all_iff)
qed

lemma run_no_owner: "no_owner d \<Longrightarrow> no_owner (run schema baseUrl rs d)"
  by (induction rs arbitrary: d) (simp_all add: handle_no_owner)

lemma reachable_no_owner: "no_owner (run schema baseUrl rs empty_db)"
  by (rule run_no_owner) (simp add: no_owner_def empty_db_def)

lemma prepaid_history_run:
  "run any_body ''https://shop.example'' prepaid_history empty_db =
     \<lparr>products = products_P1,
      orders = [\<lparr>order_id = 1, order_totalAmount = 1000, order_status = OrderPending\<rparr>],
      orderDetails = rows_P1,
      payments = [\<lparr>pay_id = 1, pay_orderId = 1, pay_userId = None, pay_transactionId = ''t1'',
                   pay_amount = 1000, pay_method = Prepaid, pay_status = Completed,
                   pay_paidAt = Some 7\<rparr>],
      users = [\<lparr>user_id = 1, user_uid = ''u1'', user_balance = 0\<rparr>],
      transactionHistory = []\<rparr>"
proof -
  have created: "created_db ''t1'' (order_P1 500 2 1000 Prepaid) products_P1 rows_P1 empty_db =
     \<lparr>products = products_P1,
      orders = [\<lparr>order_id = 1, order_totalAmount = 1000, order_status = OrderPending\<rparr>],
      orderDetails = rows_P1,
      payments = [\<lparr>pay_id = 1, pay_orderId = 1, pay_userId = None, pay_transactionId = ''t1'',
                   pay_amount = 1000, pay_method = Prepaid, pay_status = Pending,
                   pay_paidAt = None\<rparr>],
      users = [], transactionHistory = []\<rparr>"
    by (simp add: created_db_def empty_db_def order_P1_def initial_status_def next_id_def)
  show ?thesis
    by (simp add: prepaid_history_def scenario_B created getProfile_def
        adminPrepaidCharge_def adminPrepaidChargeApiRequestSchema_def postPrepaidPay_def
        next_id_def set_balance_by_id_def set_balance_by_uid_def
        complete_payment_def Let_def)
qed

text \<open>No handler ever inserts a history row.\<close>

lemma history_stays_empty:
  "transactionHistory (run schema baseUrl rs empty_db) = []"
proof -
  have step: "\<And>r d. transactionHistory (snd (handle schema baseUrl r d)) = transactionHistory d"
  proof -
    fix r d show "transactionHistory (snd (handle schema baseUrl r d)) = transactionHistory d"
      by (cases r)
         (simp_all add: createOrder_def adminPrepaidCharge_def getPayment_def getProfile_def
            getPrepaidPay_def postPrepaidPay_def Let_def
            split: option.split prod.split bool.split list.split)
  qed
  have "\<And>d. transactionHistory (run schema baseUrl rs d) = transactionHistory d"
    by (induction rs) (simp_all add: step)
  then show ?thesis by (simp add: empty_db_def)
qed

section \<open>Properties\<close>

text \<open>
  C1. Two settlements in flight against one user, each for a pending prepaid payment of
  amount B with the user's balance at B. The specification states that exactly one
  succeeds and the other is answered "Insufficient balance". The handler reads the
  balance, checks it and writes the difference in separate statements. The state below
  is reached by two prepaid orders of 500, a profile lookup and a charge of 500. In the
  schedule both requests read the balance 500 before either writes: both pass the
  check, both write the balance 0 and both mark their payment completed, so payments of
  1000 are completed against a balance of 500; neither is answered "Insufficient
  balance". Both then throw at the parse of the history values and are answered 500.
  (Run one after the other, the second request is answered "Insufficient balance" and
  its payment stays pending: \<open>serial_debits_one_succeeds\<close>.)
\<close>

theorem concurrent_debits_lost_update:
  "interleave \<lparr>call_now = 7, call_uid = ''u1'', call_txn = ''t1''\<rparr>
              \<lparr>call_now = 8, call_uid = ''u1'', call_txn = ''t2''\<rparr>
              race_schedule
              (AtSelectPayment, AtSelectPayment,
               run any_body ''https://shop.example'' race_setup empty_db)
   = (Returned Uncaught, Returned Uncaught,
      (race_db 500)
        \<lparr>payments :=
           [\<lparr>pay_id = 1, pay_orderId = 1, pay_userId = None, pay_transactionId = ''t1'',
             pay_amount = 500, pay_method = Prepaid, pay_status = Completed,
             pay_paidAt = Some 7\<rparr>,
            \<lparr>pay_id = 2, pay_orderId = 2, pay_userId = None, pay_transactionId = ''t2'',
             pay_amount = 500, pay_method = Prepaid, pay_status = Completed,
             pay_paidAt = Some 8\<rparr>],
         users := [\<lparr>user_id = 1, user_uid = ''u1'', user_balance = 0\<rparr>]\<rparr>)"
  by (simp add: race_db_reached race_both_debit) (simp add: race_db_def complete_payment_def)

text \<open>
  C2. From the empty database, after any sequence of requests handled one after the
  other, every user's balance is at least 0.
\<close>

theorem balance_never_negative:
  "balances_nonneg (run schema baseUrl rs empty_db)"
  by (rule run_balances) (simp add: balances_nonneg_def empty_db_def)

theorem balance_never_negative_witness:
  "balances_nonneg (run any_body ''https://shop.example'' prepaid_history empty_db)
   \<and> map user_balance (users (run any_body ''https://shop.example'' prepaid_history empty_db)) = [0]"
  using balance_never_negative[of any_body "''https://shop.example''" prepaid_history]
  by (simp add: prepaid_history_run)

text \<open>
  C3. The specification states that an order is completed exactly when its payment is.
  After a prepaid order is created, the user is provisioned and charged, and the payment
  is settled, the payment row is completed and its order row is still pending: settlement
  never writes \<open>orders\<close> (\<open>postPrepaidPay_orders\<close>), while order creation completes the order together with
  the payment.
\<close>

theorem settlement_leaves_order_pending:
  "map pay_status (payments (run any_body ''https://shop.example'' prepaid_history empty_db))
     = [Completed]
   \<and> map order_status (orders (run any_body ''https://shop.example'' prepaid_history empty_db))
     = [OrderPending]
   \<and> map pay_orderId (payments (run any_body ''https://shop.example'' prepaid_history empty_db))
     = map order_id (orders (run any_body ''https://shop.example'' prepaid_history empty_db))"
  by (simp add: prepaid_history_run)

text \<open>
  C4. Settling a pending prepaid payment of amount A as a user whose balance is below A
  answers 400 "Insufficient balance" and leaves the whole state as it was: the balance,
  the pending payment and the transaction history are untouched.
\<close>

theorem insufficient_balance_rejected:
  assumes "find (\<lambda>p. pay_transactionId p = txn \<and> pay_method p = Prepaid) (payments d) = Some p"
    and "pay_status p = Pending"
    and "find (\<lambda>r. user_uid r = u) (users d) = Some usr"
    and "user_balance usr < pay_amount p"
  shows "postPrepaidPay now (Some u) txn d = (Error 400 ''Insufficient balance'', d)"
  using assms by (simp add: postPrepaidPay_def)

theorem insufficient_balance_rejected_witness:
  "postPrepaidPay 0 (Some ''u1'') ''t1'' scenario_D
     = (Error 400 ''Insufficient balance'', scenario_D)"
  by (rule insufficient_balance_rejected
        [where p = "hd (payments scenario_D)" and usr = "hd (users scenario_D)"])
     (simp_all add: scenario_D_def empty_db_def)

text \<open>
  C5, as amended. Let the prices and quantities of the request not be negative, or let
  every product and every running sum of the details be a safe integer. Whenever order
  creation succeeds, the sum of price times quantity over the requested details equals
  the declared total, which is the amount of the answer, the \<open>totalAmount\<close> of the one
  order row written and the \<open>amount\<close> of the one payment row written; the detail rows
  written are the requested details, all under the new order, and sum to the same total.
  When every detail matches the catalog, the declared total is a safe integer (with
  prices and quantities that are not negative) or every product and running sum is one,
  and the sum differs from the declared total, the answer is 400 "Invalid totalAmount"
  and nothing but the catalog is written.
\<close>

theorem order_totals_agree:
  "(createOrder schema baseUrl fetched txnId body d = (OrderCreated t a m st url, d')
      \<and> (nonneg_details (details body) \<or> exact_range (details body) 0) \<longrightarrow>
      sum_list (map (\<lambda>dt. price dt * quantity dt) (details body)) = totalAmount body
    \<and> a = totalAmount body
    \<and> (\<exists>ord rows p.
          orders d' = orders d @ [ord] \<and> order_totalAmount ord = totalAmount body
        \<and> orderDetails d' = orderDetails d @ rows
        \<and> list_all (\<lambda>r. od_orderId r = order_id ord) rows
        \<and> map row_detail rows = details body
        \<and> sum_list (map (\<lambda>r. od_price r * od_quantity r) rows) = totalAmount body
        \<and> payments d' = payments d @ [p] \<and> pay_orderId p = order_id ord
        \<and> pay_transactionId p = t \<and> pay_amount p = totalAmount body))
   \<and> (schema body \<and> fetched = Some itemData \<and> syncProducts itemData (products d) = (True, ps)
       \<and> list_all (\<lambda>dt. find (\<lambda>i. jan_code i = productId dt \<and> item_price i = price dt) itemData \<noteq> None)
            (details body)
       \<and> ((nonneg_details (details body) \<and> safe_integer (totalAmount body))
            \<or> exact_range (details body) 0)
       \<and> sum_list (map (\<lambda>dt. price dt * quantity dt) (details body)) \<noteq> totalAmount body \<longrightarrow>
      createOrder schema baseUrl fetched txnId body d
        = (Error 400 ''Invalid totalAmount'', d\<lparr>products := ps\<rparr>))"
proof (intro conjI impI)
  assume h: "createOrder schema baseUrl fetched txnId body d = (OrderCreated t a m st url, d')
      \<and> (nonneg_details (details body) \<or> exact_range (details body) 0)"
  then have ok: "createOrder schema baseUrl fetched txnId body d = (OrderCreated t a m st url, d')"
    and range: "nonneg_details (details body) \<or> exact_range (details body) 0"
    by simp_all
  from ok obtain itemData' ps' rows where
    ct: "computeTotal itemData' (details body) (Num 0) = Some (Num (totalAmount body))"
    and safe: "safe_integer (totalAmount body)"
    and rows: "list_all (\<lambda>r. od_orderId r = next_id (map order_id (orders d))) rows"
      "map row_detail rows = details body"
    and res: "t = txnId" "a = totalAmount body" "d' = created_db txnId body ps' rows d"
    by (rule createOrder_success)
  show tot: "sum_list (map (\<lambda>dt. price dt * quantity dt) (details body)) = totalAmount body"
  proof -
    from range show ?thesis
    proof
      assume "nonneg_details (details body)"
      from computeTotal_nonneg_total[OF this ct safe] show ?thesis by simp
    next
      assume ex: "exact_range (details body) 0"
      from ct have "computeTotal itemData' (details body) (Num 0) \<noteq> None" by simp
      then have "list_all (\<lambda>dt. find (\<lambda>i. jan_code i = productId dt \<and> item_price i = price dt)
                   itemData' \<noteq> None) (details body)"
        by (simp add: computeTotal_None)
      from computeTotal_exact[OF this ex] ct show ?thesis by simp
    qed
  qed
  show "a = totalAmount body" by (rule res)
  have "map (\<lambda>r. od_price r * od_quantity r) rows
          = map (\<lambda>dt. price dt * quantity dt) (map row_detail rows)"
    by (simp add: row_detail_def)
  with tot rows(2) have s: "sum_list (map (\<lambda>r. od_price r * od_quantity r) rows) = totalAmount body"
    by simp
  let ?ord = "\<lparr>order_id = next_id (map order_id (orders d)),
          order_totalAmount = totalAmount body,
          order_status = (if initial_status body = Completed then OrderCompleted
                          else OrderPending)\<rparr>"
  let ?p = "\<lparr>pay_id = next_id (map pay_id (payments d)),
          pay_orderId = next_id (map order_id (orders d)),
          pay_userId = None, pay_transactionId = txnId,
          pay_amount = totalAmount body, pay_method = paymentMethod body,
          pay_status = initial_status body, pay_paidAt = None\<rparr>"
  have "orders d' = orders d @ [?ord] \<and> order_totalAmount ?ord = totalAmount body
        \<and> orderDetails d' = orderDetails d @ rows
        \<and> list_all (\<lambda>r. od_orderId r = order_id ?ord) rows
        \<and> map row_detail rows = details body
        \<and> sum_list (map (\<lambda>r. od_price r * od_quantity r) rows) = totalAmount body
        \<and> payments d' = payments d @ [?p] \<and> pay_orderId ?p = order_id ?ord
        \<and> pay_transactionId ?p = t \<and> pay_amount ?p = totalAmount body"
    using rows s res by (simp add: created_db_def)
  then show "\<exists>ord rows p.
          orders d' = orders d @ [ord] \<and> order_totalAmount ord = totalAmount body
        \<and> orderDetails d' = orderDetails d @ rows
        \<and> list_all (\<lambda>r. od_orderId r = order_id ord) rows
        \<and> map row_detail rows = details body
        \<and> sum_list (map (\<lambda>r. od_price r * od_quantity r) rows) = totalAmount body
        \<and> payments d' = payments d @ [p] \<and> pay_orderId p = order_id ord
        \<and> pay_transactionId p = t \<and> pay_amount p = totalAmount body"
    by blast
next
  assume h: "schema body \<and> fetched = Some itemData \<and> syncProducts itemData (products d) = (True, ps)
       \<and> list_all (\<lambda>dt. find (\<lambda>i. jan_code i = productId dt \<and> item_price i = price dt) itemData \<noteq> None)
            (details body)
       \<and> ((nonneg_details (details body) \<and> safe_integer (totalAmount body))
            \<or> exact_range (details body) 0)
       \<and> sum_list (map (\<lambda>dt. price dt * quantity dt) (details body)) \<noteq> totalAmount body"
  from h have sch: "schema body" and sy: "syncProducts itemData (products d) = (True, ps)"
    and ne: "sum_list (map (\<lambda>dt. price dt * quantity dt) (details body)) \<noteq> totalAmount body"
    and f: "fetched = Some itemData"
    and mt: "list_all (\<lambda>dt. find (\<lambda>i. jan_code i = productId dt \<and> item_price i = price dt)
               itemData \<noteq> None) (details body)"
    and range: "(nonneg_details (details body) \<and> safe_integer (totalAmount body))
            \<or> exact_range (details body) 0"
    by simp_all
  from mt obtain c where c: "computeTotal itemData (details body) (Num 0) = Some c"
    using computeTotal_None[of itemData "details body" "Num 0"] by (cases "computeTotal itemData (details body) (Num 0)") auto
  have cne: "c \<noteq> Num (totalAmount body)"
  proof
    assume eq: "c = Num (totalAmount body)"
    from range show False
    proof
      assume "nonneg_details (details body) \<and> safe_integer (totalAmount body)"
      then have "totalAmount body = sum_list (map (\<lambda>dt. price dt * quantity dt) (details body))"
        using computeTotal_nonneg_total[of "details body" itemData "totalAmount body"] c eq by simp
      with ne show False by simp
    next
      assume "exact_range (details body) 0"
      from computeTotal_exact[OF mt this] c eq ne show False by simp
    qed
  qed
  from createOrder_mismatch[where schema = schema and body = body, OF sch sy c cne, of baseUrl txnId] f
  show "createOrder schema baseUrl fetched txnId body d
        = (Error 400 ''Invalid totalAmount'', d\<lparr>products := ps\<rparr>)" by simp
qed

theorem order_totals_agree_witness:
  "createOrder any_body ''https://shop.example'' (Some catalog_P1) ''t1''
        (order_P1 500 2 1000 Cash) empty_db
     = (OrderCreated ''t1'' 1000 Cash Completed None,
        created_db ''t1'' (order_P1 500 2 1000 Cash) products_P1 rows_P1 empty_db)
   \<and> sum_list (map (\<lambda>dt. price dt * quantity dt) (details (order_P1 500 2 1000 Cash))) = 1000
   \<and> (\<exists>ord rows p.
          orders (created_db ''t1'' (order_P1 500 2 1000 Cash) products_P1 rows_P1 empty_db)
            = orders empty_db @ [ord]
        \<and> order_totalAmount ord = 1000
        \<and> orderDetails (created_db ''t1'' (order_P1 500 2 1000 Cash) products_P1 rows_P1 empty_db)
            = orderDetails empty_db @ rows
        \<and> sum_list (map (\<lambda>r. od_price r * od_quantity r) rows) = 1000
        \<and> payments (created_db ''t1'' (order_P1 500 2 1000 Cash) products_P1 rows_P1 empty_db)
            = payments empty_db @ [p]
        \<and> pay_orderId p = order_id ord \<and> pay_amount p = 1000)
   \<and> createOrder any_body ''https://shop.example'' (Some catalog_P1) ''t1''
        (order_P1 500 2 900 Cash) empty_db
       = (Error 400 ''Invalid totalAmount'',
          empty_db\<lparr>products := [\<lparr>prod_id = ''P1'', prod_name = ''Tea'', prod_price = 500\<rparr>]\<rparr>)"
proof (intro conjI)
  show "createOrder any_body ''https://shop.example'' (Some catalog_P1) ''t1''
        (order_P1 500 2 1000 Cash) empty_db
     = (OrderCreated ''t1'' 1000 Cash Completed None,
        created_db ''t1'' (order_P1 500 2 1000 Cash) products_P1 rows_P1 empty_db)"
    by (rule scenario_A)
next
  have nn: "nonneg_details (details (order_P1 500 2 1000 Cash))"
    by (simp add: nonneg_details_def order_P1_def)
  have tot: "totalAmount (order_P1 500 2 1000 Cash) = 1000" by (simp add: order_P1_def)
  note A = order_totals_agree
    [where schema = any_body and baseUrl = "''https://shop.example''"
        and fetched = "Some catalog_P1" and txnId = "''t1''" and body = "order_P1 500 2 1000 Cash"
        and d = empty_db and t = "''t1''" and a = 1000 and m = Cash and st = Completed and url = None
        and d' = "created_db ''t1'' (order_P1 500 2 1000 Cash) products_P1 rows_P1 empty_db",
     THEN conjunct1, rule_format, OF conjI[OF scenario_A disjI1[OF nn]], unfolded tot]
  from A show "sum_list (map (\<lambda>dt. price dt * quantity dt) (details (order_P1 500 2 1000 Cash))) = 1000"
    by (rule conjunct1)
  from A obtain ord rows p where
    r: "orders (created_db ''t1'' (order_P1 500 2 1000 Cash) products_P1 rows_P1 empty_db)
            = orders empty_db @ [ord]"
       "order_totalAmount ord = 1000"
       "orderDetails (created_db ''t1'' (order_P1 500 2 1000 Cash) products_P1 rows_P1 empty_db)
            = orderDetails empty_db @ rows"
       "sum_list (map (\<lambda>r. od_price r * od_quantity r) rows) = 1000"
       "payments (created_db ''t1'' (order_P1 500 2 1000 Cash) products_P1 rows_P1 empty_db)
            = payments empty_db @ [p]"
       "pay_orderId p = order_id ord" "pay_amount p = 1000"
    by (elim conjE exE)
  have "orders (created_db ''t1'' (order_P1 500 2 1000 Cash) products_P1 rows_P1 empty_db)
            = orders empty_db @ [ord]
        \<and> order_totalAmount ord = 1000
        \<and> orderDetails (created_db ''t1'' (order_P1 500 2 1000 Cash) products_P1 rows_P1 empty_db)
            = orderDetails empty_db @ rows
        \<and> sum_list (map (\<lambda>r. od_price r * od_quantity r) rows) = 1000
        \<and> payments (created_db ''t1'' (order_P1 500 2 1000 Cash) products_P1 rows_P1 empty_db)
            = payments empty_db @ [p]
        \<and> pay_orderId p = order_id ord \<and> pay_amount p = 1000"
    using r by (intro conjI)
  then show "\<exists>ord rows p.
          orders (created_db ''t1'' (order_P1 500 2 1000 Cash) products_P1 rows_P1 empty_db)
            = orders empty_db @ [ord]
        \<and> order_totalAmount ord = 1000
        \<and> orderDetails (created_db ''t1'' (order_P1 500 2 1000 Cash) products_P1 rows_P1 empty_db)
            = orderDetails empty_db @ rows
        \<and> sum_list (map (\<lambda>r. od_price r * od_quantity r) rows) = 1000
        \<and> payments (created_db ''t1'' (order_P1 500 2 1000 Cash) products_P1 rows_P1 empty_db)
            = payments empty_db @ [p]
        \<and> pay_orderId p = order_id ord \<and> pay_amount p = 1000"
    by (intro exI)
next
  have "any_body (order_P1 500 2 900 Cash)" by (simp add: any_body_def)
  moreover have "list_all (\<lambda>dt. find (\<lambda>i. jan_code i = productId dt \<and> item_price i = price dt) catalog_P1 \<noteq> None)
            (details (order_P1 500 2 900 Cash))"
    by (simp add: order_P1_def catalog_P1_def)
  moreover have "nonneg_details (details (order_P1 500 2 900 Cash))
                 \<and> safe_integer (totalAmount (order_P1 500 2 900 Cash))"
    by (simp add: nonneg_details_def order_P1_def safe_integer_def)
  moreover have "sum_list (map (\<lambda>dt. price dt * quantity dt) (details (order_P1 500 2 900 Cash)))
       \<noteq> totalAmount (order_P1 500 2 900 Cash)"
    by (simp add: order_P1_def)
  ultimately show "createOrder any_body ''https://shop.example'' (Some catalog_P1) ''t1''
        (order_P1 500 2 900 Cash) empty_db
       = (Error 400 ''Invalid totalAmount'',
          empty_db\<lparr>products := [\<lparr>prod_id = ''P1'', prod_name = ''Tea'', prod_price = 500\<rparr>]\<rparr>)"
    using sync_P1 order_totals_agree
      [where schema = any_body and body = "order_P1 500 2 900 Cash"
          and fetched = "Some catalog_P1" and itemData = catalog_P1 and d = empty_db
          and ps = "[\<lparr>prod_id = ''P1'', prod_name = ''Tea'', prod_price = 500\<rparr>]"
          and baseUrl = "''https://shop.example''" and txnId = "''t1''"]
    by blast
qed

text \<open>
  Counterexample to C5 as the specification states it, where the doubles round. The
  catalog holds P1 at 9007199254740991 and P2 at 2; the order takes one of each and
  declares 9007199254740992. The exact sum is 9007199254740993; the handler's sum is the double
  9007199254740992, equal to the declared total, so the total check passes. The order
  insert schema then rejects the total, which is above \<open>Number.MAX_SAFE_INTEGER\<close>, and
  the answer is 500, not 400 "Invalid totalAmount".
\<close>

theorem order_total_rounding_counterexample:
  "list_all (\<lambda>dt. find (\<lambda>i. jan_code i = productId dt \<and> item_price i = price dt) catalog_big
                       \<noteq> None) (details order_big)
   \<and> sum_list (map (\<lambda>dt. price dt * quantity dt) (details order_big)) \<noteq> totalAmount order_big
   \<and> createOrder any_body ''https://shop.example'' (Some catalog_big) ''t1'' order_big empty_db
       = (Uncaught, empty_db\<lparr>products := products_big\<rparr>)"
proof (intro conjI)
  show "list_all (\<lambda>dt. find (\<lambda>i. jan_code i = productId dt \<and> item_price i = price dt) catalog_big
                       \<noteq> None) (details order_big)"
    by (simp add: catalog_big_def order_big_def)
  show "sum_list (map (\<lambda>dt. price dt * quantity dt) (details order_big)) \<noteq> totalAmount order_big"
    by (simp add: order_big_def)
  have "any_body order_big" by (simp add: any_body_def)
  moreover have "computeTotal catalog_big (details order_big) (Num 0)
                   = Some (Num (totalAmount order_big))"
    using total_big by (simp add: order_big_def)
  moreover have "\<not> safe_integer (totalAmount order_big)"
    by (simp add: order_big_def safe_integer_def)
  ultimately show "createOrder any_body ''https://shop.example'' (Some catalog_big) ''t1''
       order_big empty_db = (Uncaught, empty_db\<lparr>products := products_big\<rparr>)"
    using sync_big
    by (intro createOrder_unsafe_total[where schema = any_body and body = order_big])
qed

text \<open>
  C6. When the catalog has been fetched and synchronised and some requested detail finds
  no catalog item with its product id and its price, the answer is 400 "Unknown product"
  and the orders, order details and payments are as before (the synchronised catalog is
  the only change).
\<close>

theorem unknown_product_rejected:
  assumes "schema body" and "fetched = Some itemData"
    and "syncProducts itemData (products d) = (True, ps)"
    and "dt \<in> set (details body)"
    and "find (\<lambda>i. jan_code i = productId dt \<and> item_price i = price dt) itemData = None"
  shows "createOrder schema baseUrl fetched txnId body d
           = (Error 400 ''Unknown product'', d\<lparr>products := ps\<rparr>)
       \<and> orders (snd (createOrder schema baseUrl fetched txnId body d)) = orders d
       \<and> orderDetails (snd (createOrder schema baseUrl fetched txnId body d)) = orderDetails d
       \<and> payments (snd (createOrder schema baseUrl fetched txnId body d)) = payments d"
proof -
  from assms(4,5) have "\<not> list_all (\<lambda>dt. find (\<lambda>i. jan_code i = productId dt \<and> item_price i = price dt)
                                  itemData \<noteq> None) (details body)"
    by (auto simp: list_all_iff)
  then have "computeTotal itemData (details body) (Num 0) = None"
    by (simp add: computeTotal_None)
  from createOrder_unknown[where schema = schema and body = body, OF assms(1,3) this, of baseUrl txnId]
  show ?thesis using assms(2) by simp
qed

theorem unknown_product_rejected_witness:
  "createOrder any_body ''https://shop.example'' (Some catalog_P1) ''t1''
        (order_P1 400 1 400 Prepaid) empty_db
     = (Error 400 ''Unknown product'',
        empty_db\<lparr>products := [\<lparr>prod_id = ''P1'', prod_name = ''Tea'', prod_price = 500\<rparr>]\<rparr>)
   \<and> orders (snd (createOrder any_body ''https://shop.example'' (Some catalog_P1) ''t1''
        (order_P1 400 1 400 Prepaid) empty_db)) = []
   \<and> payments (snd (createOrder any_body ''https://shop.example'' (Some catalog_P1) ''t1''
        (order_P1 400 1 400 Prepaid) empty_db)) = []"
  using unknown_product_rejected
    [where schema = any_body and body = "order_P1 400 1 400 Prepaid"
        and fetched = "Some catalog_P1" and itemData = catalog_P1 and d = empty_db
        and ps = "[\<lparr>prod_id = ''P1'', prod_name = ''Tea'', prod_price = 500\<rparr>]"
        and dt = "\<lparr>productId = ''P1'', name = ''Tea'', price = 400, quantity = 1\<rparr>"
        and baseUrl = "''https://shop.example''" and txnId = "''t1''"]
    sync_P1
  by (simp add: any_body_def order_P1_def catalog_P1_def empty_db_def)

text \<open>
  C7. The specification states that the first of two settlements of one transaction id
  succeeds and the second is rejected. After an order of 500, a profile lookup and a
  charge of 1000, the first settlement debits the balance to 500 and completes the
  payment, then throws at the parse of the history values: it is answered 500 and no
  history row is written. The second settlement is answered 400 "Payment is not pending"
  and changes nothing.
\<close>

theorem first_settlement_throws:
  "postPrepaidPay 7 (Some ''u1'') ''t1'' (run any_body ''https://shop.example'' funded_setup empty_db)
     = (Uncaught,
        funded_db
          \<lparr>payments :=
             [\<lparr>pay_id = 1, pay_orderId = 1, pay_userId = None, pay_transactionId = ''t1'',
               pay_amount = 500, pay_method = Prepaid, pay_status = Completed,
               pay_paidAt = Some 7\<rparr>],
           users := [\<lparr>user_id = 1, user_uid = ''u1'', user_balance = 500\<rparr>]\<rparr>)
   \<and> postPrepaidPay 8 (Some ''u1'') ''t1''
        (funded_db
          \<lparr>payments :=
             [\<lparr>pay_id = 1, pay_orderId = 1, pay_userId = None, pay_transactionId = ''t1'',
               pay_amount = 500, pay_method = Prepaid, pay_status = Completed,
               pay_paidAt = Some 7\<rparr>],
           users := [\<lparr>user_id = 1, user_uid = ''u1'', user_balance = 500\<rparr>]\<rparr>)
     = (Error 400 ''Payment is not pending'',
        funded_db
          \<lparr>payments :=
             [\<lparr>pay_id = 1, pay_orderId = 1, pay_userId = None, pay_transactionId = ''t1'',
               pay_amount = 500, pay_method = Prepaid, pay_status = Completed,
               pay_paidAt = Some 7\<rparr>],
           users := [\<lparr>user_id = 1, user_uid = ''u1'', user_balance = 500\<rparr>]\<rparr>)
   \<and> transactionHistory
        (snd (postPrepaidPay 7 (Some ''u1'') ''t1''
               (run any_body ''https://shop.example'' funded_setup empty_db))) = []"
  by (simp add: funded_db_reached)
     (simp add: funded_db_def postPrepaidPay_def Let_def set_balance_by_uid_def
        complete_payment_def)



text \<open>
  C9. The specification states that the lookup answers with the payment of the given
  transaction id and with 404 when there is none. The query has no \<open>where\<close> clause: asked for t2 after
  one order with transaction id t1 has been created, the handler answers with the payment
  t1; on an empty table the schema parse throws and the answer is 500.
\<close>

theorem payment_lookup_ignores_transactionId:
  "handle any_body ''https://shop.example'' (GetPayments ''t2'')
     (run any_body ''https://shop.example''
        [PostOrders (Some catalog_P1) ''t1'' (order_P1 500 2 1000 Prepaid)] empty_db)
   = (PaymentInfo ''t1'' 1000 Prepaid Pending,
      run any_body ''https://shop.example''
        [PostOrders (Some catalog_P1) ''t1'' (order_P1 500 2 1000 Prepaid)] empty_db)
   \<and> handle any_body ''https://shop.example'' (GetPayments ''t1'') empty_db = (Uncaught, empty_db)"
proof -
  have "getPayment ''t1'' empty_db = (Uncaught, empty_db)"
    by (simp add: getPayment_def empty_db_def)
  moreover have "getPayment ''t2''
       (created_db ''t1'' (order_P1 500 2 1000 Prepaid) products_P1 rows_P1 empty_db)
     = (PaymentInfo ''t1'' 1000 Prepaid Pending,
        created_db ''t1'' (order_P1 500 2 1000 Prepaid) products_P1 rows_P1 empty_db)"
    by (simp add: getPayment_def created_db_def empty_db_def order_P1_def initial_status_def)
  ultimately show ?thesis by (simp add: scenario_B)
qed

text \<open>
  C10. The specification states that any user whose balance covers a pending prepaid
  payment settles it with success. The order below is created without any user; two
  users exist and u1 is charged 1000. Settling as u1 debits u1 by 500 and completes the
  payment, with the \<open>user_id\<close> column of the payment left empty; the handler then throws
  at the parse of the history values and the answer is 500. (For every state:
  \<open>settle_debits_any_user\<close>, \<open>postPrepaidPay_relabel\<close>.)
\<close>

theorem settlement_by_any_user_throws:
  "postPrepaidPay 7 (Some ''u1'') ''t1''
       (run any_body ''https://shop.example'' two_users_setup empty_db)
     = (Uncaught,
        two_users_db
          \<lparr>payments :=
             [\<lparr>pay_id = 1, pay_orderId = 1, pay_userId = None, pay_transactionId = ''t1'',
               pay_amount = 500, pay_method = Prepaid, pay_status = Completed,
               pay_paidAt = Some 7\<rparr>],
           users := [\<lparr>user_id = 1, user_uid = ''u2'', user_balance = 0\<rparr>,
                     \<lparr>user_id = 2, user_uid = ''u1'', user_balance = 500\<rparr>]\<rparr>)"
  by (simp add: two_users_db_reached)
     (simp add: two_users_db_def postPrepaidPay_def Let_def set_balance_by_uid_def
        complete_payment_def)

end
